theory Spec2Isabelle
  imports Complex_Main "HOL-Library.Sublist"
begin

text \<open>
  A model of \<open>tools/fetch_vercel_logs.py\<close>, the script that takes the latest deployment
  of a Vercel project, reads its events and prints a diagnostic summary: the text of an
  event, the classification of the lines by phrase lists, the framework, the insights,
  the report and the command line around them. Operations of Python that can raise are
  functions into \<open>py_error + 'a\<close>. The functions of the Python library whose result
  depends on the Unicode database, on the time zone of the process, on the range of its
  clock or on its C library are arguments, and so is the network.
\<close>

section \<open>Python strings\<close>

text \<open>
  A Python \<open>str\<close> is the list of its code points; \<open>lit\<close> gives the string of an ASCII
  literal. The substring test \<open>p in s\<close> is \<open>sublist p s\<close>.
\<close>

type_synonym str = "nat list"

definition lit :: "string \<Rightarrow> str" where
  "lit s = map of_char s"

text \<open>
  The white space of \<open>str.strip\<close> and \<open>str.isspace\<close>: the code points that Python
  counts as white space, which are U+0009 to U+000D, U+001C to U+0020, U+0085, U+00A0,
  U+1680, U+2000 to U+200A, U+2028, U+2029, U+202F, U+205F and U+3000.
\<close>

definition is_space :: "nat \<Rightarrow> bool" where
  "is_space c =
     ((0x09 \<le> c \<and> c \<le> 0x0D) \<or> (0x1C \<le> c \<and> c \<le> 0x20) \<or> c = 0x85 \<or> c = 0xA0
      \<or> c = 0x1680 \<or> (0x2000 \<le> c \<and> c \<le> 0x200A) \<or> c = 0x2028 \<or> c = 0x2029
      \<or> c = 0x202F \<or> c = 0x205F \<or> c = 0x3000)"

definition strip :: "str \<Rightarrow> str" where
  "strip s = rev (dropWhile is_space (rev (dropWhile is_space s)))"

text \<open>\<open>sep.join(xs)\<close>\<close>

fun join :: "str \<Rightarrow> str list \<Rightarrow> str" where
  "join sep [] = []"
| "join sep [x] = x"
| "join sep (x # y # ys) = x @ sep @ join sep (y # ys)"

text \<open>\<open>xs.insert(i, x)\<close> for an index \<open>i \<ge> 0\<close>; beyond the end Python appends.\<close>

definition list_insert :: "nat \<Rightarrow> 'a \<Rightarrow> 'a list \<Rightarrow> 'a list" where
  "list_insert i x xs = take i xs @ x # drop i xs"

section \<open>The platform\<close>

text \<open>
  The exceptions of the operations that the model takes as fallible: \<open>d[k]\<close> and
  \<open>xs[-1]\<close>; \<^verbatim>\<open>time.localtime\<close>, which raises \<open>OverflowError\<close>, \<open>OSError\<close> or
  \<open>ValueError\<close> for a timestamp that the platform does not convert; and
  \<^verbatim>\<open>time.strftime\<close>, which raises \<open>ValueError\<close> on the platforms that format the years
  from 1 to 9999 only.
\<close>

datatype py_error = KeyError str | IndexError | OverflowError | OSError | ValueError

text \<open>The fields of a \<^verbatim>\<open>time.struct_time\<close> that the format of the header reads.\<close>

record struct_time =
  tm_year :: int
  tm_mon :: int
  tm_mday :: int
  tm_hour :: int
  tm_min :: int
  tm_sec :: int

text \<open>
  \<open>str.lower\<close> and \<open>str.upper\<close> follow the Unicode database of the interpreter: they
  map letters beyond ASCII, can change the length of a string and, for \<open>str.lower\<close>,
  look at the neighbours of a capital sigma. \<^verbatim>\<open>time.localtime\<close> converts to the local
  time of the process, so its result depends on the time zone that the process runs in,
  and it raises outside the range of the platform. \<^verbatim>\<open>time.strftime\<close> hands its format
  to the C library, whose \<^verbatim>\<open>%Y\<close> differs between platforms for the years below 1000;
  \<open>time_strftime\<close> is \<^verbatim>\<open>time.strftime\<close> with the format of the header,
  \<^verbatim>\<open>"%Y-%m-%d %H:%M:%S"\<close>. The model takes the four functions as they are on the
  platform that runs the script.
\<close>

record platform =
  str_lower :: "str \<Rightarrow> str"
  str_upper :: "str \<Rightarrow> str"
  time_localtime :: "real \<Rightarrow> py_error + struct_time"
  time_strftime :: "struct_time \<Rightarrow> py_error + str"

section \<open>Data model\<close>

text \<open>
  The fields of the two data classes have the types that the source declares.
  \<open>created_at\<close> is a Python float; the model takes it as a real number, so the
  values \<open>nan\<close> and \<open>inf\<close> are outside the model.
\<close>

record Deployment =
  uid :: str
  state :: str
  created_at :: real
  framework :: "str option"

record LogInsights =
  root_cause :: str
  missing_envs :: "str list"
  missing_dependencies :: "str list"
  resolved_framework :: "str option"
  build_status :: str
  recommendations :: "str list"

text \<open>
  The field \<open>framework\<close> of \<open>LogInsights\<close> is named \<open>resolved_framework\<close> here, since
  \<open>Deployment\<close> has a field of the same name.

  An event is a decoded JSON object: a Python \<open>dict\<close> with string keys, here an
  association list read with \<open>map_of\<close>, so that the first pair of a key is its entry.
  Python's \<open>None\<close> is \<open>JNull\<close>.
\<close>

datatype json =
    JNull
  | JBool bool
  | JNum real
  | JStr str
  | JList "json list"
  | JDict "(str \<times> json) list"

type_synonym event = "(str \<times> json) list"

text \<open>\<open>d.get(k)\<close>, \<open>k in d\<close> and \<open>d[k]\<close>; the last raises \<open>KeyError\<close> on a missing key.\<close>

definition dict_get :: "(str \<times> json) list \<Rightarrow> str \<Rightarrow> json" where
  "dict_get d k = (case map_of d k of None \<Rightarrow> JNull | Some v \<Rightarrow> v)"

definition dict_contains :: "(str \<times> json) list \<Rightarrow> str \<Rightarrow> bool" where
  "dict_contains d k = (map_of d k \<noteq> None)"

definition dict_getitem :: "(str \<times> json) list \<Rightarrow> str \<Rightarrow> py_error + json" where
  "dict_getitem d k = (case map_of d k of None \<Rightarrow> Inl (KeyError k) | Some v \<Rightarrow> Inr v)"

text \<open>\<open>xs[-1]\<close> raises \<open>IndexError\<close> on the empty list.\<close>

definition list_last :: "'a list \<Rightarrow> py_error + 'a" where
  "list_last xs = (if xs = [] then Inl IndexError else Inr (last xs))"

section \<open>Event text extraction\<close>

text \<open>
  The last two statements of \<open>extract_text_from_event\<close>:
  \<^verbatim>\<open>if "message" in event and isinstance(event["message"], str): return event["message"]\<close>
  and \<^verbatim>\<open>return ""\<close>.
\<close>

definition message_text :: "event \<Rightarrow> py_error + str" where
  "message_text event =
     (if dict_contains event (lit ''message'') then
        (case dict_getitem event (lit ''message'') of
           Inl e \<Rightarrow> Inl e
         | Inr (JStr message) \<Rightarrow> Inr message
         | Inr _ \<Rightarrow> Inr [])
      else Inr [])"

definition extract_text_from_event :: "event \<Rightarrow> py_error + str" where
  "extract_text_from_event event =
     (case dict_get event (lit ''payload'') of
        JDict payload \<Rightarrow>
          (case dict_get payload (lit ''text'') of
             JStr t \<Rightarrow> Inr t
           | _ \<Rightarrow> message_text event)
      | _ \<Rightarrow> message_text event)"

section \<open>Pattern classifier\<close>

text \<open>
  The inner loop of \<open>detect_patterns\<close> over the patterns, for one line: the first
  pattern found in \<open>low\<close> appends the stripped line and leaves the loop (\<open>break\<close>).
\<close>

fun scan_patterns :: "str \<Rightarrow> str \<Rightarrow> str list \<Rightarrow> str list \<Rightarrow> str list" where
  "scan_patterns line low [] matches = matches"
| "scan_patterns line low (pattern # patterns) matches =
     (if sublist pattern low then matches @ [strip line]
      else scan_patterns line low patterns matches)"

fun scan_lines :: "platform \<Rightarrow> str list \<Rightarrow> str list \<Rightarrow> str list \<Rightarrow> str list" where
  "scan_lines P [] patterns matches = matches"
| "scan_lines P (line # lines) patterns matches =
     scan_lines P lines patterns (scan_patterns line (str_lower P line) patterns matches)"

definition detect_patterns :: "platform \<Rightarrow> str list \<Rightarrow> str list \<Rightarrow> str list" where
  "detect_patterns P lines patterns = scan_lines P lines patterns []"

text \<open>The three phrase lists that \<open>derive_insights\<close> passes to \<open>detect_patterns\<close>.\<close>

definition error_patterns :: "str list" where
  "error_patterns =
     [lit ''error'', lit ''fail'', lit ''cannot'', lit ''missing'', lit ''module not found'']"

definition env_patterns :: "str list" where
  "env_patterns =
     [lit ''environment variable'', lit ''env var'', lit ''not set'', lit ''undefined'',
      lit ''missing key'']"

definition dependency_patterns :: "str list" where
  "dependency_patterns =
     [lit ''module not found'', lit ''cannot find module'', lit ''npm err! missing script'',
      lit ''package not found'', lit ''dependency is missing'']"

section \<open>Framework resolution\<close>

fun scan_framework :: "platform \<Rightarrow> event list \<Rightarrow> py_error + str option" where
  "scan_framework P [] = Inr None"
| "scan_framework P (event # events) =
     (case extract_text_from_event event of
        Inl e \<Rightarrow> Inl e
      | Inr t \<Rightarrow>
          (let low = str_lower P t in
           if sublist (lit ''next.js'') low then Inr (Some (lit ''next.js''))
           else if sublist (lit ''astro'') low then Inr (Some (lit ''astro''))
           else if sublist (lit ''remix'') low then Inr (Some (lit ''remix''))
           else if sublist (lit ''sveltekit'') low then Inr (Some (lit ''sveltekit''))
           else scan_framework P events))"

text \<open>Truth value of an \<open>Optional[str]\<close>: neither \<open>None\<close> nor the empty string.\<close>

definition truthy :: "str option \<Rightarrow> bool" where
  "truthy v = (case v of None \<Rightarrow> False | Some s \<Rightarrow> s \<noteq> [])"

definition find_framework :: "platform \<Rightarrow> Deployment \<Rightarrow> event list \<Rightarrow> py_error + str option" where
  "find_framework P deployment events =
     (if truthy (framework deployment) then Inr (framework deployment)
      else scan_framework P events)"

section \<open>Insight derivation\<close>

text \<open>
  The comprehension
  \<^verbatim>\<open>[extract_text_from_event(event) for event in events if extract_text_from_event(event)]\<close>:
  the condition is evaluated first, then the element.
\<close>

fun event_lines :: "event list \<Rightarrow> py_error + str list" where
  "event_lines [] = Inr []"
| "event_lines (event # events) =
     (case extract_text_from_event event of
        Inl e \<Rightarrow> Inl e
      | Inr cond \<Rightarrow>
          if cond \<noteq> [] then
            (case extract_text_from_event event of
               Inl e \<Rightarrow> Inl e
             | Inr t \<Rightarrow>
                 (case event_lines events of
                    Inl e \<Rightarrow> Inl e
                  | Inr rest \<Rightarrow> Inr (t # rest)))
          else event_lines events)"

definition no_error_message :: str where
  "no_error_message = lit ''No explicit error message found in logs.''"

definition baseline_recommendations :: "str list" where
  "baseline_recommendations =
     [lit ''Verify the build command in Vercel project settings.'',
      lit ''Confirm all required environment variables are configured in the Vercel dashboard.'',
      lit ''Reproduce the build locally with `npm run build` to validate the fix before redeploying.'']"

definition env_recommendation :: str where
  "env_recommendation = lit ''Set the missing environment variables noted in the logs.''"

definition dependency_recommendation :: str where
  "dependency_recommendation =
     lit ''Install or declare the dependencies that are reported as missing.''"

definition derive_insights :: "platform \<Rightarrow> Deployment \<Rightarrow> event list \<Rightarrow> py_error + LogInsights" where
  "derive_insights P deployment events =
     (case event_lines events of
        Inl e \<Rightarrow> Inl e
      | Inr lines \<Rightarrow>
          (let error_lines = detect_patterns P lines error_patterns in
           case (if error_lines \<noteq> [] then list_last error_lines else Inr no_error_message) of
             Inl e \<Rightarrow> Inl e
           | Inr cause \<Rightarrow>
               (let envs = detect_patterns P lines env_patterns;
                    deps = detect_patterns P lines dependency_patterns
                in case find_framework P deployment events of
                     Inl e \<Rightarrow> Inl e
                   | Inr fw \<Rightarrow>
                       (let recs = baseline_recommendations;
                            recs = (if envs \<noteq> [] then list_insert 1 env_recommendation recs
                                    else recs);
                            recs = (if deps \<noteq> []
                                    then list_insert 1 dependency_recommendation recs
                                    else recs)
                        in Inr \<lparr>root_cause = cause,
                                missing_envs = envs,
                                missing_dependencies = deps,
                                resolved_framework = fw,
                                build_status = state deployment,
                                recommendations = recs\<rparr>))))"

section \<open>Report rendering\<close>

text \<open>Decimal digits, for the code of an HTTP error and for the dates of the statements.\<close>

definition digit :: "nat \<Rightarrow> nat" where
  "digit n = 48 + n mod 10"

fun decimal :: "nat \<Rightarrow> str" where
  "decimal n = (if n < 10 then [digit n] else decimal (n div 10) @ [digit n])"

definition show_int :: "int \<Rightarrow> str" where
  "show_int i = (if i < 0 then lit ''-'' @ decimal (nat (- i)) else decimal (nat i))"

definition two_digits :: "int \<Rightarrow> str" where
  "two_digits i = [digit (nat i div 10), digit (nat i)]"

text \<open>The characters that the string literals of the source start with.\<close>

definition status_mark :: str where
  "status_mark = [0xF8FF, 0xFC, 0xEE, 0xE7]"

definition cause_mark :: str where
  "cause_mark = [0xF8FF, 0xFC, 0xDF, 0x2020]"

definition fix_mark :: str where
  "fix_mark = [0xF8FF, 0xFC, 0xF5, 0x2020]"

definition link_mark :: str where
  "link_mark = [0xF8FF, 0xFC, 0xEE, 0xF3]"

definition cross_mark :: str where
  "cross_mark = [0x201A, 0xF9, 0xE5]"

text \<open>The separators \<^verbatim>\<open>"\n  - "\<close> and \<^verbatim>\<open>"\n\n"\<close>.\<close>

definition bullet :: str where
  "bullet = 0x0A # lit ''  - ''"

definition blank_line :: str where
  "blank_line = [0x0A, 0x0A]"

text \<open>\<^verbatim>\<open>insights.framework or "Unknown"\<close>\<close>

definition framework_label :: "LogInsights \<Rightarrow> str" where
  "framework_label insights =
     (case resolved_framework insights of
        None \<Rightarrow> lit ''Unknown''
      | Some f \<Rightarrow> if f \<noteq> [] then f else lit ''Unknown'')"

definition status_line :: "platform \<Rightarrow> LogInsights \<Rightarrow> str" where
  "status_line P insights =
     status_mark @ lit '' BUILD STATUS | '' @ str_upper P (build_status insights)
       @ lit '' | Framework: '' @ framework_label insights"

definition root_cause_line :: "LogInsights \<Rightarrow> str" where
  "root_cause_line insights = cause_mark @ lit '' ROOT CAUSE | '' @ root_cause insights"

definition envs_section :: "LogInsights \<Rightarrow> str" where
  "envs_section insights =
     lit ''Missing ENV Vars:'' @ bullet @ join bullet (missing_envs insights)"

definition dependencies_section :: "LogInsights \<Rightarrow> str" where
  "dependencies_section insights =
     lit ''Missing Dependencies:'' @ bullet @ join bullet (missing_dependencies insights)"

definition extra_sections :: "LogInsights \<Rightarrow> str list" where
  "extra_sections insights =
     (let extra = [];
          extra = (if missing_envs insights \<noteq> [] then extra @ [envs_section insights]
                   else extra);
          extra = (if missing_dependencies insights \<noteq> []
                   then extra @ [dependencies_section insights]
                   else extra)
      in extra)"

definition fix_section :: "LogInsights \<Rightarrow> str" where
  "fix_section insights =
     fix_mark @ lit '' FIX RECOMMENDATION |'' @ bullet
       @ join bullet (recommendations insights)"

text \<open>The header, from the string \<open>created\<close> that \<^verbatim>\<open>time.strftime\<close> returns.\<close>

definition header :: "Deployment \<Rightarrow> str \<Rightarrow> str" where
  "header deployment created =
     link_mark @ lit '' Latest deployment: '' @ uid deployment @ lit '' | Created: ''
       @ created"

text \<open>
  \<open>format_summary\<close> builds the status line, the root cause line, the extra sections and
  the fix section, then calls \<^verbatim>\<open>time.localtime\<close> and \<^verbatim>\<open>time.strftime\<close>; an
  exception of either call leaves the function.
\<close>

definition format_summary :: "platform \<Rightarrow> LogInsights \<Rightarrow> Deployment \<Rightarrow> py_error + str" where
  "format_summary P insights deployment =
     (case time_localtime P (created_at deployment) of
        Inl e \<Rightarrow> Inl e
      | Inr tm \<Rightarrow>
          (case time_strftime P tm of
             Inl e \<Rightarrow> Inl e
           | Inr created \<Rightarrow>
               (let sections = [header deployment created, status_line P insights,
                                root_cause_line insights];
                    sections = sections @ extra_sections insights;
                    sections = sections @ [fix_section insights]
                in Inr (join blank_line sections))))"

section \<open>Deployment selection and the command line\<close>

text \<open>
  \<^verbatim>\<open>xs.sort(key=key, reverse=True)\<close>: Python reverses the list, sorts it stably in
  ascending order and reverses the result, so that equal keys keep their order.
\<close>

definition sort_reverse :: "('a \<Rightarrow> 'k::linorder) \<Rightarrow> 'a list \<Rightarrow> 'a list" where
  "sort_reverse key xs = rev (sort_key key (rev xs))"

text \<open>The three \<open>VercelAPIError\<close>s that \<open>make_request\<close> raises, and their messages.\<close>

datatype VercelAPIError = HTTPError int str | URLError str | InvalidJSON

fun error_text :: "VercelAPIError \<Rightarrow> str" where
  "error_text (HTTPError code reason) =
     lit ''HTTP error '' @ show_int code @ lit '' from Vercel API: '' @ reason"
| "error_text (URLError reason) = lit ''Failed to reach Vercel API: '' @ reason"
| "error_text InvalidJSON = lit ''Invalid JSON payload from Vercel API''"

text \<open>
  The network is an argument of the model: \<open>deployment_records\<close> is the outcome of the
  request of \<open>list_deployments\<close> with the \<open>Deployment\<close> records built from the response,
  in the order of the response, before they are sorted; \<open>fetch_events\<close> is the outcome
  of the function of that name, whose result holds dictionaries only. Both take the
  token, the project or the deployment id, and the team. A response of another shape
  than the one that the loop of \<open>list_deployments\<close> expects is outside the model.
\<close>

record vercel_api =
  deployment_records :: "str \<Rightarrow> str \<Rightarrow> str option \<Rightarrow> VercelAPIError + Deployment list"
  fetch_events :: "str \<Rightarrow> str \<Rightarrow> str option \<Rightarrow> VercelAPIError + event list"

definition list_deployments ::
  "vercel_api \<Rightarrow> str \<Rightarrow> str \<Rightarrow> str option \<Rightarrow> VercelAPIError + Deployment list" where
  "list_deployments api token project team =
     (case deployment_records api token project team of
        Inl exc \<Rightarrow> Inl exc
      | Inr deployments \<Rightarrow> Inr (sort_reverse created_at deployments))"

text \<open>\<open>Inl\<close> is the line printed before \<^verbatim>\<open>sys.exit(1)\<close>.\<close>

definition getenv_or_exit :: "(str \<rightharpoonup> str) \<Rightarrow> str \<Rightarrow> str + str" where
  "getenv_or_exit env key =
     (case env key of
        None \<Rightarrow> Inl (cross_mark @ lit '' Environment variable '' @ key @ lit '' is not set.'')
      | Some v \<Rightarrow>
          if v = []
          then Inl (cross_mark @ lit '' Environment variable '' @ key @ lit '' is not set.'')
          else Inr v)"

text \<open>
  A run of the script: the lines printed and the exit status, or the lines printed
  before an exception that nothing catches.
\<close>

datatype run = Exit "str list" int | Uncaught "str list" py_error

definition no_deployments_line :: str where
  "no_deployments_line =
     cross_mark @ lit '' No deployments found for the specified project.''"

definition main :: "platform \<Rightarrow> (str \<rightharpoonup> str) \<Rightarrow> vercel_api \<Rightarrow> run" where
  "main P env api =
     (case getenv_or_exit env (lit ''VERCEL_TOKEN'') of
        Inl line \<Rightarrow> Exit [line] 1
      | Inr token \<Rightarrow>
     (case getenv_or_exit env (lit ''VERCEL_PROJECT_NAME'') of
        Inl line \<Rightarrow> Exit [line] 1
      | Inr project \<Rightarrow>
     (let team = env (lit ''VERCEL_TEAM_ID'') in
      case list_deployments api token project team of
        Inl exc \<Rightarrow> Exit [cross_mark @ lit '' '' @ error_text exc] 1
      | Inr deployments \<Rightarrow>
          if deployments = [] then Exit [no_deployments_line] 1
          else
            (case deployments of
               [] \<Rightarrow> Uncaught [] IndexError
             | latest # _ \<Rightarrow>
                 (let out = [link_mark @ lit '' Latest deployment: '' @ uid latest
                               @ lit '' | State: '' @ state latest]
                  in case fetch_events api token (uid latest) team of
                       Inl exc \<Rightarrow> Exit (out @ [cross_mark @ lit '' '' @ error_text exc]) 1
                     | Inr events \<Rightarrow>
                         (case derive_insights P latest events of
                            Inl e \<Rightarrow> Uncaught out e
                          | Inr insights \<Rightarrow>
                              (case format_summary P insights latest of
                                 Inl e \<Rightarrow> Uncaught out e
                               | Inr summary \<Rightarrow> Exit (out @ [[], summary]) 0)))))))"

section \<open>Notions used in the statements\<close>

text \<open>The text of an event: the string that \<open>extract_text_from_event\<close> returns.\<close>

abbreviation event_text :: "event \<Rightarrow> str" where
  "event_text event \<equiv> projr (extract_text_from_event event)"

text \<open>The lines that \<open>derive_insights\<close> classifies: the non-empty event texts, in order.\<close>

abbreviation text_lines :: "event list \<Rightarrow> str list" where
  "text_lines events \<equiv> filter (\<lambda>t. t \<noteq> []) (map event_text events)"

text \<open>A line matches a phrase list when its lower-cased form contains one of the phrases.\<close>

definition line_matches :: "platform \<Rightarrow> str list \<Rightarrow> str \<Rightarrow> bool" where
  "line_matches P patterns line = (\<exists>p \<in> set patterns. sublist p (str_lower P line))"

text \<open>
  The markers that \<open>find_framework\<close> looks for, in the order of its tests, and the first
  of them that the lower-cased form of a text contains.
\<close>

definition framework_markers :: "str list" where
  "framework_markers = [lit ''next.js'', lit ''astro'', lit ''remix'', lit ''sveltekit'']"

definition first_marker :: "platform \<Rightarrow> str \<Rightarrow> str option" where
  "first_marker P t = List.find (\<lambda>marker. sublist marker (str_lower P t)) framework_markers"

text \<open>
  What the statements use of \<open>str.lower\<close> and \<open>str.upper\<close>, true of every version of
  Python: on a string of ASCII characters they map the letters \<open>A\<close> to \<open>Z\<close> and \<open>a\<close> to
  \<open>z\<close> onto each other and keep every other character, and \<open>str.lower\<close> keeps a string of
  white space as it is.
\<close>

definition is_ascii :: "str \<Rightarrow> bool" where
  "is_ascii s = list_all (\<lambda>c. c < 128) s"

definition ascii_lower :: "nat \<Rightarrow> nat" where
  "ascii_lower c = (if 65 \<le> c \<and> c \<le> 90 then c + 32 else c)"

definition ascii_upper :: "nat \<Rightarrow> nat" where
  "ascii_upper c = (if 97 \<le> c \<and> c \<le> 122 then c - 32 else c)"

definition python_strings :: "platform \<Rightarrow> bool" where
  "python_strings P =
     ((\<forall>s. is_ascii s \<longrightarrow> str_lower P s = map ascii_lower s)
      \<and> (\<forall>s. is_ascii s \<longrightarrow> str_upper P s = map ascii_upper s)
      \<and> (\<forall>s. list_all is_space s \<longrightarrow> str_lower P s = s))"

text \<open>
  What the statements use of \<^verbatim>\<open>time.strftime\<close>, true of every platform: for a local
  time with a year of four digits and every other field in its range,
  \<^verbatim>\<open>"%Y-%m-%d %H:%M:%S"\<close> gives the year in decimal and the month, day, hour, minute and
  second with two digits each.
\<close>

definition timestamp :: "struct_time \<Rightarrow> str" where
  "timestamp tm =
     show_int (tm_year tm) @ lit ''-'' @ two_digits (tm_mon tm) @ lit ''-''
       @ two_digits (tm_mday tm) @ lit '' '' @ two_digits (tm_hour tm) @ lit '':''
       @ two_digits (tm_min tm) @ lit '':'' @ two_digits (tm_sec tm)"

definition calendar_time :: "struct_time \<Rightarrow> bool" where
  "calendar_time tm =
     (1000 \<le> tm_year tm \<and> tm_year tm \<le> 9999 \<and> 1 \<le> tm_mon tm \<and> tm_mon tm \<le> 12
      \<and> 1 \<le> tm_mday tm \<and> tm_mday tm \<le> 31 \<and> 0 \<le> tm_hour tm \<and> tm_hour tm \<le> 23
      \<and> 0 \<le> tm_min tm \<and> tm_min tm \<le> 59 \<and> 0 \<le> tm_sec tm \<and> tm_sec tm \<le> 61)"

definition python_times :: "platform \<Rightarrow> bool" where
  "python_times P = (\<forall>tm. calendar_time tm \<longrightarrow> time_strftime P tm = Inr (timestamp tm))"

section \<open>Examples\<close>

text \<open>
  A platform for the examples. Its case mappings are those of Python on the characters
  of the examples: ASCII, the Kelvin sign U+212A, whose lower case is \<open>k\<close>, the sharp s
  U+00DF, whose upper case is \<open>SS\<close>, and white space, which has no case. Its
  \<^verbatim>\<open>time.localtime\<close> is that of a platform with a
  64-bit \<open>time_t\<close> and a 32-bit \<open>tm_year\<close>, in the proleptic Gregorian calendar, for a time
  zone given by its offset from UTC, in seconds, at each second since the epoch, and
  the \<^verbatim>\<open>time.strftime\<close> of Linux, which formats every year and does not pad it.
\<close>

type_synonym timezone = "int \<Rightarrow> int"

definition civil_from_days :: "int \<Rightarrow> int \<times> int \<times> int" where
  "civil_from_days days =
     (let z = days + 719468;
          era = z div 146097;
          doe = z mod 146097;
          yoe = (doe - doe div 1460 + doe div 36524 - doe div 146096) div 365;
          doy = doe - (365 * yoe + yoe div 4 - yoe div 100);
          mp = (5 * doy + 2) div 153;
          d = doy - (153 * mp + 2) div 5 + 1;
          m = (if mp < 10 then mp + 3 else mp - 9);
          y = yoe + era * 400
      in (if m \<le> 2 then y + 1 else y, m, d))"

definition broken_down :: "int \<Rightarrow> struct_time" where
  "broken_down local =
     (case civil_from_days (local div 86400) of
        (y, m, d) \<Rightarrow>
          \<lparr>tm_year = y, tm_mon = m, tm_mday = d,
           tm_hour = local mod 86400 div 3600, tm_min = local mod 3600 div 60,
           tm_sec = local mod 60\<rparr>)"

definition posix_localtime :: "timezone \<Rightarrow> real \<Rightarrow> py_error + struct_time" where
  "posix_localtime tz t =
     (if \<lfloor>t\<rfloor> < - (2 ^ 63) \<or> 2 ^ 63 \<le> \<lfloor>t\<rfloor> then Inl OverflowError
      else if tm_year (broken_down (\<lfloor>t\<rfloor> + tz \<lfloor>t\<rfloor>)) - 1900 < - (2 ^ 31)
              \<or> 2 ^ 31 \<le> tm_year (broken_down (\<lfloor>t\<rfloor> + tz \<lfloor>t\<rfloor>)) - 1900
      then Inl OSError
      else Inr (broken_down (\<lfloor>t\<rfloor> + tz \<lfloor>t\<rfloor>)))"

definition posix_strftime :: "struct_time \<Rightarrow> py_error + str" where
  "posix_strftime tm = Inr (timestamp tm)"

definition example_lower :: "nat \<Rightarrow> nat" where
  "example_lower c = (if c = 0x212A then 0x6B else ascii_lower c)"

definition example_upper :: "nat \<Rightarrow> str" where
  "example_upper c = (if c = 0xDF then [0x53, 0x53] else [ascii_upper c])"

definition example_platform :: "timezone \<Rightarrow> platform" where
  "example_platform tz =
     \<lparr>str_lower = map example_lower, str_upper = (\<lambda>s. concat (map example_upper s)),
      time_localtime = posix_localtime tz, time_strftime = posix_strftime\<rparr>"

definition utc :: timezone where
  "utc t = 0"

text \<open>
  An environment with both credentials and no team, a response with three deployment
  records, two of them of the same age, and a network that gives a fixed response to the
  deployment request and no events.
\<close>

definition example_env :: "str \<rightharpoonup> str" where
  "example_env =
     map_of [(lit ''VERCEL_TOKEN'', lit ''secret''), (lit ''VERCEL_PROJECT_NAME'', lit ''site'')]"


definition example_api :: "VercelAPIError + Deployment list \<Rightarrow> vercel_api" where
  "example_api response =
     \<lparr>deployment_records = (\<lambda>token project team. response),
      fetch_events = (\<lambda>token deployment_id team. Inr [])\<rparr>"

text \<open>
  A deployment with a lower-case state, the insights of a log without any indicator,
  and an event with a message.
\<close>

definition example_deployment :: "real \<Rightarrow> Deployment" where
  "example_deployment t =
     \<lparr>uid = lit ''dpl_1'', state = lit ''ready'', created_at = t, framework = None\<rparr>"

definition example_insights :: LogInsights where
  "example_insights =
     \<lparr>root_cause = no_error_message, missing_envs = [], missing_dependencies = [],
      resolved_framework = None, build_status = lit ''ready'',
      recommendations = baseline_recommendations\<rparr>"

definition message_event :: "string \<Rightarrow> event" where
  "message_event s = [(lit ''message'', JStr (lit s))]"

section \<open>Evaluation on literals\<close>

text \<open>Equations that evaluate the string and dictionary operations on literals.\<close>

lemmas str_eval = lit_def ascii_lower_def ascii_upper_def example_lower_def example_upper_def
  strip_def is_space_def sublist_code(3) prefix_code

lemmas event_eval = extract_text_from_event_def message_text_def dict_get_def
  dict_contains_def dict_getitem_def

lemmas framework_eval = find_framework_def truthy_def

text \<open>The platform of the examples, and that its case mappings have the properties that the
  statements use.\<close>

lemma example_platform_simps [simp]:
  "str_lower (example_platform tz) = map example_lower"
  "str_upper (example_platform tz) s = concat (map example_upper s)"
  "time_localtime (example_platform tz) = posix_localtime tz"
  "time_strftime (example_platform tz) = posix_strftime"
  by (simp_all add: example_platform_def)

lemma python_strings_example: "python_strings (example_platform tz)"
proof -
  have "map example_lower s = map ascii_lower s" if "is_ascii s" for s
    using that by (induction s) (auto simp: is_ascii_def example_lower_def)
  moreover have "concat (map example_upper s) = map ascii_upper s" if "is_ascii s" for s
    using that by (induction s) (auto simp: is_ascii_def example_upper_def)
  moreover have "map example_lower s = s" if "list_all is_space s" for s
    using that by (induction s) (auto simp: is_space_def example_lower_def ascii_lower_def)
  ultimately show ?thesis
    by (simp add: python_strings_def)
qed

lemma python_times_example: "python_times (example_platform tz)"
  by (simp add: python_times_def posix_strftime_def)

lemma message_event_text: "extract_text_from_event (message_event s) = Inr (lit s)"
  by (simp add: message_event_def event_eval lit_def)

lemma example_env_credentials:
  "example_env (lit ''VERCEL_TOKEN'') = Some (lit ''secret'')" "lit ''secret'' \<noteq> []"
  "example_env (lit ''VERCEL_PROJECT_NAME'') = Some (lit ''site'')" "lit ''site'' \<noteq> []"
  "example_env (lit ''VERCEL_TEAM_ID'') = None"
  by (simp_all add: example_env_def lit_def)

text \<open>Local times of the examples: 14 November 2023 in UTC and one hour east of it, and two
  timestamps beyond the range of the platform.\<close>

lemma civil_19675: "civil_from_days 19675 = (2023, 11, 14)"
  unfolding civil_from_days_def by (simp only: Let_def) simp

lemma civil_far: "civil_from_days 11574074074074 = (31688740476, 10, 23)"
  unfolding civil_from_days_def by (simp only: Let_def) simp

lemma broken_down_utc:
  "broken_down 1700000000 =
     \<lparr>tm_year = 2023, tm_mon = 11, tm_mday = 14, tm_hour = 22, tm_min = 13, tm_sec = 20\<rparr>"
  by (simp add: broken_down_def civil_19675)


lemma broken_down_far: "tm_year (broken_down 1000000000000000000) = 31688740476"
  by (simp add: broken_down_def civil_far)

lemma localtime_utc:
  "posix_localtime utc 1700000000 =
     Inr \<lparr>tm_year = 2023, tm_mon = 11, tm_mday = 14, tm_hour = 22, tm_min = 13, tm_sec = 20\<rparr>"
  by (simp add: posix_localtime_def utc_def broken_down_utc)


lemma localtime_far: "posix_localtime utc 1000000000000000000 = Inl OSError"
  by (simp add: posix_localtime_def utc_def broken_down_far)

lemma localtime_beyond: "posix_localtime utc 10000000000000000000 = Inl OverflowError"
  by (simp add: posix_localtime_def)



lemma strftime_utc:
  "posix_strftime \<lparr>tm_year = 2023, tm_mon = 11, tm_mday = 14, tm_hour = 22, tm_min = 13,
      tm_sec = 20\<rparr> = Inr (lit ''2023-11-14 22:13:20'')"
  by (simp add: posix_strftime_def timestamp_def show_int_def two_digits_def digit_def lit_def)



lemma calendar_time_utc:
  "calendar_time \<lparr>tm_year = 2023, tm_mon = 11, tm_mday = 14, tm_hour = 22, tm_min = 13,
      tm_sec = 20\<rparr>"
  by (simp add: calendar_time_def)

section \<open>Properties of event text extraction\<close>

lemma message_text_Inr:
  "message_text event =
     Inr (case map_of event (lit ''message'') of Some (JStr message) \<Rightarrow> message | _ \<Rightarrow> [])"
  by (simp add: message_text_def dict_contains_def dict_getitem_def
      split: option.splits json.splits)

lemma extract_text_total: "\<exists>s. extract_text_from_event event = Inr s"
  by (simp add: extract_text_from_event_def message_text_Inr split: json.splits)

lemma event_lines_Inr:
  "event_lines events = Inr (text_lines events)"
proof (induction events)
  case Nil
  show ?case by simp
next
  case (Cons event events)
  obtain s where t: "extract_text_from_event event = Inr s"
    using extract_text_total by blast
  show ?case by (simp add: t Cons.IH)
qed

lemma scan_framework_total: "\<exists>fw. scan_framework P events = Inr fw"
proof (induction events)
  case Nil
  show ?case by simp
next
  case (Cons event events)
  obtain s where "extract_text_from_event event = Inr s"
    using extract_text_total by blast
  with Cons.IH show ?case
    by (simp add: Let_def)
qed

lemma find_framework_total: "\<exists>fw. find_framework P deployment events = Inr fw"
  using scan_framework_total by (simp add: find_framework_def)

section \<open>Properties of the pattern classifier\<close>

lemma scan_patterns_eq:
  "scan_patterns line low patterns matches =
     (if \<exists>p \<in> set patterns. sublist p low then matches @ [strip line] else matches)"
  by (induction patterns) auto

lemma scan_lines_eq:
  "scan_lines P lines patterns matches =
     matches @ map strip (filter (line_matches P patterns) lines)"
  by (induction lines arbitrary: matches) (simp_all add: scan_patterns_eq line_matches_def)

lemma detect_patterns_eq:
  "detect_patterns P lines patterns = map strip (filter (line_matches P patterns) lines)"
  by (simp add: detect_patterns_def scan_lines_eq)

lemma lower_empty: "python_strings P \<Longrightarrow> str_lower P [] = []"
  by (simp add: python_strings_def)

lemma empty_line_no_match:
  "python_strings P \<Longrightarrow> [] \<notin> set patterns \<Longrightarrow> \<not> line_matches P patterns []"
  by (auto simp: line_matches_def lower_empty)

text \<open>
  Claim C4. For every list of lines and every phrase list, \<open>detect_patterns\<close> returns, in
  the order of the input, the stripped form of exactly the lines whose lower-cased form
  contains one of the phrases, one entry for each such line of the input however many
  phrases it contains; the lower-cased form is that of \<open>str.lower\<close>, whatever the Unicode
  database. The empty line matches none of the three phrase lists of the program, nor
  any phrase list without the empty phrase: removing it from the input leaves the
  result as it is.
\<close>

theorem detect_patterns_classifies:
  "detect_patterns P lines patterns =
     map strip (filter (\<lambda>line. \<exists>p \<in> set patterns. sublist p (str_lower P line)) lines)
   \<and> (python_strings P \<longrightarrow>
        detect_patterns P [[]] error_patterns = []
        \<and> detect_patterns P [[]] env_patterns = []
        \<and> detect_patterns P [[]] dependency_patterns = []
        \<and> ([] \<notin> set patterns \<longrightarrow>
             detect_patterns P (before @ [] # after) patterns =
             detect_patterns P (before @ after) patterns))"
proof -
  have "[] \<notin> set error_patterns" "[] \<notin> set env_patterns" "[] \<notin> set dependency_patterns"
    by (simp_all add: error_patterns_def env_patterns_def dependency_patterns_def lit_def)
  then have "python_strings P \<Longrightarrow>
      \<not> line_matches P error_patterns [] \<and> \<not> line_matches P env_patterns []
      \<and> \<not> line_matches P dependency_patterns []"
    using empty_line_no_match by blast
  moreover have "python_strings P \<Longrightarrow> [] \<notin> set patterns \<Longrightarrow> \<not> line_matches P patterns []"
    by (rule empty_line_no_match)
  moreover have
    "line_matches P patterns = (\<lambda>line. \<exists>p \<in> set patterns. sublist p (str_lower P line))"
    by (rule ext) (simp add: line_matches_def)
  ultimately show ?thesis
    by (auto simp: detect_patterns_eq)
qed

theorem detect_patterns_classifies_witness:
  "python_strings (example_platform utc)
   \<and> detect_patterns (example_platform utc)
        [lit ''  Build FAILED  '', [], lit ''ok''] error_patterns = [lit ''Build FAILED'']
   \<and> detect_patterns (example_platform utc)
        [lit ''missing '' @ [0x212A] @ lit ''ey''] env_patterns =
       [lit ''missing '' @ [0x212A] @ lit ''ey'']
   \<and> detect_patterns (example_platform utc)
        [[0xA0] @ lit ''build failed'' @ [0x2003, 0x85]] error_patterns = [lit ''build failed'']
   \<and> [] \<notin> set error_patterns
   \<and> detect_patterns (example_platform utc)
        ([lit ''  Build FAILED  ''] @ [] # [lit ''ok'']) error_patterns =
       detect_patterns (example_platform utc)
        ([lit ''  Build FAILED  ''] @ [lit ''ok'']) error_patterns"
proof -
  let ?P = "example_platform utc"
  have ok: "python_strings ?P"
    by (rule python_strings_example)
  have ne: "[] \<notin> set error_patterns"
    by (simp add: error_patterns_def lit_def)
  note c = detect_patterns_classifies
    [of ?P "[lit ''  Build FAILED  '', [], lit ''ok'']" error_patterns
      "[lit ''  Build FAILED  '']" "[lit ''ok'']"]
  from c have "detect_patterns ?P [lit ''  Build FAILED  '', [], lit ''ok''] error_patterns =
      map strip (filter (\<lambda>line. \<exists>p \<in> set error_patterns. sublist p (str_lower ?P line))
        [lit ''  Build FAILED  '', [], lit ''ok''])"
    by (rule conjunct1)
  also have "\<dots> = [lit ''Build FAILED'']"
    by (simp add: error_patterns_def str_eval)
  finally have first: "detect_patterns ?P [lit ''  Build FAILED  '', [], lit ''ok'']
      error_patterns = [lit ''Build FAILED'']" .
  let ?kelvin = "lit ''missing '' @ [0x212A] @ lit ''ey''"
  from detect_patterns_classifies [of ?P "[?kelvin]" env_patterns "[]" "[]"]
  have "detect_patterns ?P [?kelvin] env_patterns =
      map strip (filter (\<lambda>line. \<exists>p \<in> set env_patterns. sublist p (str_lower ?P line))
        [?kelvin])"
    by (rule conjunct1)
  also have "\<dots> = [?kelvin]"
    by (simp add: env_patterns_def str_eval)
  finally have kelvin: "detect_patterns ?P [?kelvin] env_patterns = [?kelvin]" .
  let ?spaced = "[0xA0] @ lit ''build failed'' @ [0x2003, 0x85]"
  from detect_patterns_classifies [of ?P "[?spaced]" error_patterns "[]" "[]"]
  have "detect_patterns ?P [?spaced] error_patterns =
      map strip (filter (\<lambda>line. \<exists>p \<in> set error_patterns. sublist p (str_lower ?P line))
        [?spaced])"
    by (rule conjunct1)
  also have "\<dots> = [lit ''build failed'']"
    by (simp add: error_patterns_def str_eval)
  finally have spaced: "detect_patterns ?P [?spaced] error_patterns = [lit ''build failed'']" .
  from c ok ne have "detect_patterns ?P ([lit ''  Build FAILED  ''] @ [] # [lit ''ok''])
        error_patterns =
      detect_patterns ?P ([lit ''  Build FAILED  ''] @ [lit ''ok'']) error_patterns"
    by blast
  with first kelvin spaced ok ne show ?thesis by blast
qed

section \<open>Properties of insight derivation\<close>

lemma derive_insights_Inr:
  "derive_insights P deployment events =
     Inr \<lparr>root_cause =
            (if detect_patterns P (text_lines events) error_patterns = [] then no_error_message
             else last (detect_patterns P (text_lines events) error_patterns)),
          missing_envs = detect_patterns P (text_lines events) env_patterns,
          missing_dependencies = detect_patterns P (text_lines events) dependency_patterns,
          resolved_framework = projr (find_framework P deployment events),
          build_status = state deployment,
          recommendations =
            (if detect_patterns P (text_lines events) dependency_patterns = [] then
               if detect_patterns P (text_lines events) env_patterns = []
               then baseline_recommendations
               else list_insert 1 env_recommendation baseline_recommendations
             else
               if detect_patterns P (text_lines events) env_patterns = []
               then list_insert 1 dependency_recommendation baseline_recommendations
               else list_insert 1 dependency_recommendation
                      (list_insert 1 env_recommendation baseline_recommendations))\<rparr>"
proof -
  obtain fw where fw: "find_framework P deployment events = Inr fw"
    using find_framework_total by blast
  show ?thesis
    by (simp add: derive_insights_def event_lines_Inr list_last_def fw Let_def)
qed

lemma strip_eq_Nil: "strip s = [] \<longleftrightarrow> list_all is_space s"
proof -
  have "strip s = [] \<longleftrightarrow> dropWhile is_space (rev (dropWhile is_space s)) = []"
    by (simp add: strip_def)
  also have "\<dots> \<longleftrightarrow> (\<forall>c \<in> set (dropWhile is_space s). is_space c)"
    by (simp add: dropWhile_eq_Nil_conv)
  also have "\<dots> \<longleftrightarrow> dropWhile is_space s = []"
  proof
    assume a: "\<forall>c \<in> set (dropWhile is_space s). is_space c"
    show "dropWhile is_space s = []"
    proof (cases "dropWhile is_space s")
      case Nil
      then show ?thesis .
    next
      case (Cons x xs)
      then have "\<not> is_space x"
        using hd_dropWhile [of is_space s] by simp
      with a Cons show ?thesis by simp
    qed
  qed (auto dest: set_dropWhileD)
  finally show ?thesis
    by (simp add: dropWhile_eq_Nil_conv list_all_iff)
qed

lemma sublist_set: "sublist p s \<Longrightarrow> c \<in> set p \<Longrightarrow> c \<in> set s"
  by (auto simp: sublist_def)

lemma strip_match_nonempty:
  assumes "python_strings P" and "sublist p (str_lower P line)"
    and "c \<in> set p" and "\<not> is_space c"
  shows "strip line \<noteq> []"
proof
  assume "strip line = []"
  then have blank: "list_all is_space line"
    by (simp add: strip_eq_Nil)
  with assms(1) have "str_lower P line = line"
    by (simp add: python_strings_def)
  with assms(2,3) have "c \<in> set line"
    using sublist_set by fastforce
  with blank assms(4) show False
    by (simp add: list_all_iff)
qed

lemma strip_error_line:
  assumes "python_strings P" and "line_matches P error_patterns line"
  shows "strip line \<noteq> []"
proof -
  from assms(2) obtain p where p: "p \<in> set error_patterns"
    and s: "sublist p (str_lower P line)"
    by (auto simp: line_matches_def)
  from p have "p \<noteq> [] \<and> \<not> is_space (hd p)"
    by (auto simp: error_patterns_def lit_def is_space_def)
  then have "\<exists>c \<in> set p. \<not> is_space c"
    using hd_in_set by blast
  with assms(1) s show ?thesis
    using strip_match_nonempty by blast
qed

lemma no_error_message_nonempty: "no_error_message \<noteq> []"
  by (simp add: no_error_message_def lit_def)

text \<open>
  Claim C1, as amended. \<open>derive_insights\<close> returns, and \<open>root_cause\<close> is the stripped
  form of the last event text line whose lower-cased form contains a phrase of the error
  phrase list; when no line matches it is the placeholder
  \<open>No explicit error message found in logs.\<close> In both cases it is not empty.
\<close>

theorem root_cause_stripped_last_match:
  "\<exists>insights. derive_insights P deployment events = Inr insights
     \<and> root_cause insights =
         (if filter (line_matches P error_patterns) (text_lines events) = []
          then no_error_message
          else strip (last (filter (line_matches P error_patterns) (text_lines events))))
     \<and> (python_strings P \<longrightarrow> root_cause insights \<noteq> [])"
proof -
  let ?m = "filter (line_matches P error_patterns) (text_lines events)"
  have "strip (last ?m) \<noteq> []" if "python_strings P" and ne: "?m \<noteq> []"
  proof -
    from ne have "last ?m \<in> set ?m"
      by (rule last_in_set)
    then have "line_matches P error_patterns (last ?m)"
      by simp
    with that(1) show ?thesis
      by (rule strip_error_line)
  qed
  then show ?thesis
    unfolding derive_insights_Inr detect_patterns_eq
    by (auto simp: last_map no_error_message_nonempty)
qed

text \<open>
  Claim C1 as stated fails where the last matching line starts or ends with white space:
  the root cause is then the stripped line, not the line itself.
\<close>

theorem root_cause_counterexample:
  "extract_text_from_event (message_event ''  npm ERR! build failed'') =
     Inr (lit ''  npm ERR! build failed'')
   \<and> line_matches (example_platform utc) error_patterns (lit ''  npm ERR! build failed'')
   \<and> (case derive_insights (example_platform utc) (example_deployment 1700000000)
              [message_event ''  npm ERR! build failed''] of
         Inl e \<Rightarrow> False
       | Inr insights \<Rightarrow>
           root_cause insights = lit ''npm ERR! build failed''
           \<and> root_cause insights \<noteq> lit ''  npm ERR! build failed'')"
proof -
  have m: "line_matches (example_platform utc) error_patterns (lit ''  npm ERR! build failed'')"
    by (simp add: line_matches_def error_patterns_def str_eval)
  have s: "strip (lit ''  npm ERR! build failed'') = lit ''npm ERR! build failed''"
    by (simp add: str_eval)
  have n: "lit ''npm ERR! build failed'' \<noteq> lit ''  npm ERR! build failed''"
    by (simp add: lit_def)
  have l: "lit ''  npm ERR! build failed'' \<noteq> []"
    by (simp add: lit_def)
  show ?thesis
    by (simp add: derive_insights_Inr detect_patterns_eq message_event_text m s n l)
qed

theorem root_cause_stripped_last_match_witness:
  "python_strings (example_platform utc)
   \<and> (\<exists>insights.
       derive_insights (example_platform utc) (example_deployment 1700000000)
         [message_event ''error: first'', [(lit ''type'', JStr (lit ''stdout''))],
          [(lit ''payload'', JDict [(lit ''text'', JStr (lit ''Build Failed  ''))])],
          message_event ''done''] = Inr insights
       \<and> root_cause insights = lit ''Build Failed'')
   \<and> (\<exists>insights.
       derive_insights (example_platform utc) (example_deployment 1700000000)
         [[(lit ''message'', JStr (0xA0 # lit ''build failed''))]] = Inr insights
       \<and> root_cause insights = lit ''build failed'')"
proof -
  let ?P = "example_platform utc"
  let ?events = "[message_event ''error: first'', [(lit ''type'', JStr (lit ''stdout''))],
          [(lit ''payload'', JDict [(lit ''text'', JStr (lit ''Build Failed  ''))])],
          message_event ''done'']"
  have l: "text_lines ?events = [lit ''error: first'', lit ''Build Failed  '', lit ''done'']"
    by (simp add: message_event_def event_eval lit_def)
  have f: "filter (line_matches ?P error_patterns)
      [lit ''error: first'', lit ''Build Failed  '', lit ''done''] =
      [lit ''error: first'', lit ''Build Failed  '']"
    by (simp add: line_matches_def error_patterns_def str_eval)
  have s: "strip (lit ''Build Failed  '') = lit ''Build Failed''"
    by (simp add: str_eval)
  have a: "\<exists>insights. derive_insights ?P (example_deployment 1700000000) ?events = Inr insights
       \<and> root_cause insights = lit ''Build Failed''"
    using root_cause_stripped_last_match [of ?P "example_deployment 1700000000" ?events]
    unfolding l f by (auto simp: s)
  let ?spaced = "[[(lit ''message'', JStr (0xA0 # lit ''build failed''))]]"
  have l': "text_lines ?spaced = [0xA0 # lit ''build failed'']"
    by (simp add: event_eval lit_def)
  have f': "filter (line_matches ?P error_patterns) [0xA0 # lit ''build failed''] =
      [0xA0 # lit ''build failed'']"
    by (simp add: line_matches_def error_patterns_def str_eval)
  have s': "strip (0xA0 # lit ''build failed'') = lit ''build failed''"
    by (simp add: str_eval)
  have b: "\<exists>insights. derive_insights ?P (example_deployment 1700000000) ?spaced = Inr insights
       \<and> root_cause insights = lit ''build failed''"
    using root_cause_stripped_last_match [of ?P "example_deployment 1700000000" ?spaced]
    unfolding l' f' by (auto simp: s')
  from a b python_strings_example [of utc] show ?thesis
    by blast
qed

text \<open>
  Claim C3. The recommendations of \<open>derive_insights\<close> are the three baseline strings,
  with the environment remediation after the first of them when \<open>missing_envs\<close> is not
  empty and the dependency remediation after the first of them when
  \<open>missing_dependencies\<close> is not empty; when both are present the dependency remediation
  comes first, then the environment remediation, both between the first and the second
  baseline string.
\<close>

theorem recommendations_order:
  "\<exists>insights b0 b1 b2.
     derive_insights P deployment events = Inr insights
     \<and> baseline_recommendations = [b0, b1, b2]
     \<and> recommendations insights =
         (if missing_dependencies insights \<noteq> [] then
            if missing_envs insights \<noteq> []
            then [b0, dependency_recommendation, env_recommendation, b1, b2]
            else [b0, dependency_recommendation, b1, b2]
          else
            if missing_envs insights \<noteq> []
            then [b0, env_recommendation, b1, b2]
            else [b0, b1, b2])"
  by (simp add: derive_insights_Inr baseline_recommendations_def list_insert_def)

theorem recommendations_order_witness:
  "\<exists>insights b0 b1 b2.
     derive_insights (example_platform utc) (example_deployment 1700000000)
       [message_event ''Error: Cannot find module react'',
        message_event ''API_KEY is not set''] = Inr insights
     \<and> missing_dependencies insights = [lit ''Error: Cannot find module react'']
     \<and> missing_envs insights = [lit ''API_KEY is not set'']
     \<and> baseline_recommendations = [b0, b1, b2]
     \<and> recommendations insights =
         [b0, dependency_recommendation, env_recommendation, b1, b2]"
proof -
  let ?P = "example_platform utc"
  let ?d = "example_deployment 1700000000"
  let ?events = "[message_event ''Error: Cannot find module react'',
        message_event ''API_KEY is not set'']"
  have l: "text_lines ?events =
      [lit ''Error: Cannot find module react'', lit ''API_KEY is not set'']"
    by (simp add: message_event_text lit_def)
  have deps: "detect_patterns ?P
      [lit ''Error: Cannot find module react'', lit ''API_KEY is not set'']
      dependency_patterns = [lit ''Error: Cannot find module react'']"
    by (simp add: detect_patterns_eq line_matches_def dependency_patterns_def str_eval)
  have envs: "detect_patterns ?P
      [lit ''Error: Cannot find module react'', lit ''API_KEY is not set'']
      env_patterns = [lit ''API_KEY is not set'']"
    by (simp add: detect_patterns_eq line_matches_def env_patterns_def str_eval)
  from recommendations_order [of ?P ?d ?events] obtain insights b0 b1 b2 where
    r: "derive_insights ?P ?d ?events = Inr insights" "baseline_recommendations = [b0, b1, b2]"
      "recommendations insights =
         (if missing_dependencies insights \<noteq> [] then
            if missing_envs insights \<noteq> []
            then [b0, dependency_recommendation, env_recommendation, b1, b2]
            else [b0, dependency_recommendation, b1, b2]
          else
            if missing_envs insights \<noteq> []
            then [b0, env_recommendation, b1, b2]
            else [b0, b1, b2])"
    by blast
  from r(1) have m: "missing_dependencies insights = [lit ''Error: Cannot find module react'']"
    "missing_envs insights = [lit ''API_KEY is not set'']"
    unfolding derive_insights_Inr l deps envs by auto
  with r show ?thesis
    by auto
qed

section \<open>Properties of framework resolution\<close>

lemma scan_framework_eq:
  "scan_framework P events =
     Inr (case List.find (\<lambda>e. first_marker P (event_text e) \<noteq> None) events of
            None \<Rightarrow> None
          | Some e \<Rightarrow> first_marker P (event_text e))"
proof (induction events)
  case Nil
  show ?case by simp
next
  case (Cons event events)
  obtain s where "extract_text_from_event event = Inr s"
    using extract_text_total by blast
  with Cons.IH show ?case
    by (simp add: Let_def first_marker_def framework_markers_def)
qed

text \<open>
  Claim C5, as amended. \<open>find_framework\<close> returns the \<open>framework\<close> field of the
  deployment whenever it is present and not empty, whatever the events say. Otherwise it
  returns, for the first event whose lower-cased text contains one of the markers
  \<open>next.js\<close>, \<open>astro\<close>, \<open>remix\<close>, \<open>sveltekit\<close>, the first of these markers that the
  text contains; when no event contains a marker it returns \<open>None\<close>, which the report
  shows as \<open>Unknown\<close>.
\<close>

theorem framework_resolution:
  "find_framework P deployment events =
     Inr (if truthy (framework deployment) then framework deployment
          else case List.find (\<lambda>e. first_marker P (event_text e) \<noteq> None) events of
                 None \<Rightarrow> None
               | Some e \<Rightarrow> first_marker P (event_text e))
   \<and> (framework deployment = Some name \<and> name \<noteq> []
        \<longrightarrow> find_framework P deployment events = Inr (Some name))
   \<and> (\<not> truthy (framework deployment)
        \<and> (\<forall>e \<in> set events. \<forall>marker \<in> set framework_markers.
               \<not> sublist marker (str_lower P (event_text e)))
        \<longrightarrow> find_framework P deployment events = Inr None)
   \<and> (resolved_framework insights = None \<longrightarrow> framework_label insights = lit ''Unknown'')"
proof -
  have a: "find_framework P deployment events =
     Inr (if truthy (framework deployment) then framework deployment
          else case List.find (\<lambda>e. first_marker P (event_text e) \<noteq> None) events of
                 None \<Rightarrow> None
               | Some e \<Rightarrow> first_marker P (event_text e))"
    by (simp add: find_framework_def scan_framework_eq)
  have b: "find_framework P deployment events = Inr (Some name)"
    if "framework deployment = Some name" and "name \<noteq> []"
    using that by (simp add: find_framework_def truthy_def)
  have c: "find_framework P deployment events = Inr None"
    if "\<not> truthy (framework deployment)"
      and n: "\<forall>e \<in> set events. \<forall>marker \<in> set framework_markers.
               \<not> sublist marker (str_lower P (event_text e))"
  proof -
    from n have "\<forall>e \<in> set events. first_marker P (event_text e) = None"
      by (simp add: first_marker_def find_None_iff)
    then have "List.find (\<lambda>e. first_marker P (event_text e) \<noteq> None) events = None"
      by (simp add: find_None_iff)
    with that(1) show ?thesis
      by (simp add: a)
  qed
  have d: "framework_label insights = lit ''Unknown''"
    if "resolved_framework insights = None"
    using that by (simp add: framework_label_def)
  from a b c d show ?thesis
    by blast
qed

text \<open>
  Claim C5 as stated fails where no marker matches: the result is \<open>None\<close>, not the
  string \<open>unknown\<close>, and the label of the report is \<open>Unknown\<close>.
\<close>

theorem framework_resolution_counterexample:
  "find_framework (example_platform utc) (example_deployment 1700000000)
     [message_event ''Build completed''] = Inr None
   \<and> find_framework (example_platform utc) (example_deployment 1700000000)
       [message_event ''Build completed''] \<noteq> Inr (Some (lit ''unknown''))
   \<and> (case derive_insights (example_platform utc) (example_deployment 1700000000)
              [message_event ''Build completed''] of
         Inl e \<Rightarrow> False
       | Inr insights \<Rightarrow>
           resolved_framework insights = None
           \<and> framework_label insights = lit ''Unknown''
           \<and> framework_label insights \<noteq> lit ''unknown'')"
proof -
  have f: "find_framework (example_platform utc) (example_deployment 1700000000)
      [message_event ''Build completed''] = Inr None"
    by (simp add: framework_eval message_event_text example_deployment_def str_eval)
  have "lit ''Unknown'' \<noteq> lit ''unknown''"
    by (simp add: lit_def)
  with f show ?thesis
    by (simp add: derive_insights_Inr framework_label_def)
qed

theorem framework_resolution_witness:
  "find_framework (example_platform utc)
     ((example_deployment 1700000000)\<lparr>framework := Some (lit ''nuxt'')\<rparr>)
     [message_event ''Detected Next.js version 14''] = Inr (Some (lit ''nuxt''))
   \<and> find_framework (example_platform utc) (example_deployment 1700000000)
       [message_event ''Cloning repository'',
        [(lit ''payload'', JDict [(lit ''text'', JStr (lit ''Using Remix adapter of Next.js 14''))])],
        message_event ''astro build''] = Inr (Some (lit ''next.js''))
   \<and> find_framework (example_platform utc) (example_deployment 1700000000)
       [[(lit ''message'', JStr (lit ''Svelte'' @ 0x212A # lit ''it build''))]] =
       Inr (Some (lit ''sveltekit''))
   \<and> find_framework (example_platform utc)
       ((example_deployment 1700000000)\<lparr>framework := Some []\<rparr>)
       [message_event ''Build completed''] = Inr None
   \<and> framework_label example_insights = lit ''Unknown''"
proof -
  let ?P = "example_platform utc"
  let ?d = "example_deployment 1700000000"
  let ?i = example_insights
  let ?kelvin = "[[(lit ''message'', JStr (lit ''Svelte'' @ 0x212A # lit ''it build''))]]"
  have t': "map event_text ?kelvin = [lit ''Svelte'' @ 0x212A # lit ''it build'']"
    by (simp add: event_eval lit_def)
  have m': "first_marker ?P (lit ''Svelte'' @ 0x212A # lit ''it build'') =
      Some (lit ''sveltekit'')"
    by (simp add: first_marker_def framework_markers_def str_eval)
  from framework_resolution [of ?P ?d ?kelvin "lit ''nuxt''" ?i]
  have "find_framework ?P ?d ?kelvin =
     Inr (if truthy (framework ?d) then framework ?d
          else case List.find (\<lambda>e. first_marker ?P (event_text e) \<noteq> None) ?kelvin of
                 None \<Rightarrow> None
               | Some e \<Rightarrow> first_marker ?P (event_text e))"
    by (rule conjunct1)
  also have "\<dots> = Inr (Some (lit ''sveltekit''))"
    using t' m' by (simp add: truthy_def example_deployment_def)
  finally have k: "find_framework ?P ?d ?kelvin = Inr (Some (lit ''sveltekit''))" .
  have "framework (?d\<lparr>framework := Some (lit ''nuxt'')\<rparr>) = Some (lit ''nuxt'')
      \<and> lit ''nuxt'' \<noteq> []"
    by (simp add: lit_def)
  with framework_resolution [of ?P "?d\<lparr>framework := Some (lit ''nuxt'')\<rparr>"
        "[message_event ''Detected Next.js version 14'']" "lit ''nuxt''" ?i]
  have a: "find_framework ?P (?d\<lparr>framework := Some (lit ''nuxt'')\<rparr>)
      [message_event ''Detected Next.js version 14''] = Inr (Some (lit ''nuxt''))"
    by blast
  let ?events = "[message_event ''Cloning repository'',
        [(lit ''payload'', JDict [(lit ''text'', JStr (lit ''Using Remix adapter of Next.js 14''))])],
        message_event ''astro build'']"
  have t: "map event_text ?events =
      [lit ''Cloning repository'', lit ''Using Remix adapter of Next.js 14'',
       lit ''astro build'']"
    by (simp add: message_event_def event_eval lit_def)
  have m: "first_marker ?P (lit ''Cloning repository'') = None"
    "first_marker ?P (lit ''Using Remix adapter of Next.js 14'') = Some (lit ''next.js'')"
    by (simp_all add: first_marker_def framework_markers_def str_eval)
  from framework_resolution [of ?P ?d ?events "lit ''nuxt''" ?i]
  have "find_framework ?P ?d ?events =
     Inr (if truthy (framework ?d) then framework ?d
          else case List.find (\<lambda>e. first_marker ?P (event_text e) \<noteq> None) ?events of
                 None \<Rightarrow> None
               | Some e \<Rightarrow> first_marker ?P (event_text e))"
    by (rule conjunct1)
  also have "\<dots> = Inr (Some (lit ''next.js''))"
    using t m by (simp add: truthy_def example_deployment_def)
  finally have b: "find_framework ?P ?d ?events = Inr (Some (lit ''next.js''))" .
  have n: "\<forall>e \<in> set [message_event ''Build completed''].
      \<forall>marker \<in> set framework_markers. \<not> sublist marker (str_lower ?P (event_text e))"
    by (simp add: framework_markers_def message_event_text str_eval)
  have "\<not> truthy (framework (?d\<lparr>framework := Some []\<rparr>))"
    by (simp add: truthy_def)
  with n framework_resolution [of ?P "?d\<lparr>framework := Some []\<rparr>"
        "[message_event ''Build completed'']" "lit ''nuxt''" ?i]
  have c: "find_framework ?P (?d\<lparr>framework := Some []\<rparr>)
      [message_event ''Build completed''] = Inr None"
    by blast
  have "resolved_framework ?i = None"
    by (simp add: example_insights_def)
  with framework_resolution [of ?P ?d "[]" "lit ''nuxt''" ?i]
  have d: "framework_label ?i = lit ''Unknown''"
    by blast
  from a b k c d show ?thesis
    by blast
qed

section \<open>Properties of report rendering\<close>

lemma join_bullet: "xs \<noteq> [] \<Longrightarrow> sep @ join sep xs = concat (map (\<lambda>x. sep @ x) xs)"
  by (induction sep xs rule: join.induct) simp_all

lemma format_summary_Inl:
  "time_localtime P (created_at deployment) = Inl e
   \<Longrightarrow> format_summary P insights deployment = Inl e"
  by (simp add: format_summary_def)

lemma format_summary_strftime_Inl:
  "time_localtime P (created_at deployment) = Inr tm \<Longrightarrow> time_strftime P tm = Inl e
   \<Longrightarrow> format_summary P insights deployment = Inl e"
  by (simp add: format_summary_def)

lemma format_summary_Inr:
  "time_localtime P (created_at deployment) = Inr tm \<Longrightarrow> time_strftime P tm = Inr created
   \<Longrightarrow> format_summary P insights deployment =
       Inr (header deployment created @ blank_line @ status_line P insights @ blank_line
            @ root_cause_line insights
            @ (if missing_envs insights \<noteq> [] then blank_line @ envs_section insights else [])
            @ (if missing_dependencies insights \<noteq> []
               then blank_line @ dependencies_section insights else [])
            @ blank_line @ fix_section insights)"
  by (simp add: format_summary_def extra_sections_def Let_def)

lemma derive_example_insights:
  "derive_insights (example_platform utc) (example_deployment t)
     [message_event ''Build completed''] = Inr example_insights"
proof -
  let ?P = "example_platform utc"
  have "text_lines [message_event ''Build completed''] = [lit ''Build completed'']"
    by (simp add: message_event_text lit_def)
  moreover have "\<not> line_matches ?P error_patterns (lit ''Build completed'')"
    "\<not> line_matches ?P env_patterns (lit ''Build completed'')"
    "\<not> line_matches ?P dependency_patterns (lit ''Build completed'')"
    by (simp_all add: line_matches_def error_patterns_def env_patterns_def
        dependency_patterns_def str_eval)
  moreover have "find_framework ?P (example_deployment t)
      [message_event ''Build completed''] = Inr None"
    by (simp add: framework_eval message_event_text str_eval example_deployment_def)
  ultimately show ?thesis
    by (simp add: derive_insights_Inr detect_patterns_eq example_insights_def
        example_deployment_def)
qed

text \<open>
  Claim C8, as amended. Whenever \<^verbatim>\<open>time.localtime\<close> converts \<open>created_at\<close> and
  \<^verbatim>\<open>time.strftime\<close> formats the result, the report is, in this order and separated by
  blank lines: the header with the id of the deployment and its creation time, which for
  a local time with a year of four digits is the year, month, day, hour, minute and
  second in digits; the status line with the upper-cased build status and the framework,
  \<open>Unknown\<close> when there is none; the root cause line; the bulleted block
  \<open>Missing ENV Vars:\<close>, present only when \<open>missing_envs\<close> is not empty; the bulleted
  block \<open>Missing Dependencies:\<close>, present only when \<open>missing_dependencies\<close> is not
  empty; and the bulleted block of the recommendations. When no event text matches any
  phrase, the report of the derived insights has neither optional block and lists the
  three baseline recommendations.
\<close>

theorem report_sections:
  "time_localtime P (created_at deployment) = Inr tm \<and> time_strftime P tm = Inr created \<longrightarrow>
     format_summary P insights deployment =
       Inr (link_mark @ lit '' Latest deployment: '' @ uid deployment @ lit '' | Created: ''
            @ created @ blank_line @ status_line P insights @ blank_line
            @ root_cause_line insights
            @ (if missing_envs insights \<noteq> []
               then blank_line @ lit ''Missing ENV Vars:''
                      @ concat (map (\<lambda>line. bullet @ line) (missing_envs insights))
               else [])
            @ (if missing_dependencies insights \<noteq> []
               then blank_line @ lit ''Missing Dependencies:''
                      @ concat (map (\<lambda>line. bullet @ line) (missing_dependencies insights))
               else [])
            @ blank_line @ fix_mark @ lit '' FIX RECOMMENDATION |'' @ bullet
            @ join bullet (recommendations insights))
     \<and> (python_times P \<and> calendar_time tm \<longrightarrow>
          created =
            show_int (tm_year tm) @ lit ''-'' @ two_digits (tm_mon tm) @ lit ''-''
              @ two_digits (tm_mday tm) @ lit '' '' @ two_digits (tm_hour tm) @ lit '':''
              @ two_digits (tm_min tm) @ lit '':'' @ two_digits (tm_sec tm))
     \<and> (resolved_framework insights = None \<longrightarrow>
          status_line P insights =
            status_mark @ lit '' BUILD STATUS | '' @ str_upper P (build_status insights)
              @ lit '' | Framework: Unknown'')
     \<and> (\<forall>name. resolved_framework insights = Some name \<and> name \<noteq> [] \<longrightarrow>
          status_line P insights =
            status_mark @ lit '' BUILD STATUS | '' @ str_upper P (build_status insights)
              @ lit '' | Framework: '' @ name)
     \<and> root_cause_line insights = cause_mark @ lit '' ROOT CAUSE | '' @ root_cause insights
     \<and> ((\<forall>line \<in> set (text_lines events).
            \<not> line_matches P error_patterns line \<and> \<not> line_matches P env_patterns line
            \<and> \<not> line_matches P dependency_patterns line)
          \<longrightarrow> (\<exists>found. derive_insights P deployment events = Inr found
                \<and> format_summary P found deployment =
                    Inr (link_mark @ lit '' Latest deployment: '' @ uid deployment
                         @ lit '' | Created: '' @ created
                         @ blank_line @ status_line P found @ blank_line
                         @ cause_mark @ lit '' ROOT CAUSE | '' @ no_error_message
                         @ blank_line @ fix_mark @ lit '' FIX RECOMMENDATION |''
                         @ concat (map (\<lambda>r. bullet @ r) baseline_recommendations))))"
proof
  assume lt: "time_localtime P (created_at deployment) = Inr tm \<and> time_strftime P tm = Inr created"
  note fs = format_summary_Inr [OF conjunct1 [OF lt] conjunct2 [OF lt]]
  have a: "format_summary P insights deployment =
       Inr (link_mark @ lit '' Latest deployment: '' @ uid deployment @ lit '' | Created: ''
            @ created @ blank_line @ status_line P insights @ blank_line
            @ root_cause_line insights
            @ (if missing_envs insights \<noteq> []
               then blank_line @ lit ''Missing ENV Vars:''
                      @ concat (map (\<lambda>line. bullet @ line) (missing_envs insights))
               else [])
            @ (if missing_dependencies insights \<noteq> []
               then blank_line @ lit ''Missing Dependencies:''
                      @ concat (map (\<lambda>line. bullet @ line) (missing_dependencies insights))
               else [])
            @ blank_line @ fix_mark @ lit '' FIX RECOMMENDATION |'' @ bullet
            @ join bullet (recommendations insights))"
    by (simp add: fs header_def envs_section_def dependencies_section_def
        fix_section_def join_bullet)
  have b: "created =
            show_int (tm_year tm) @ lit ''-'' @ two_digits (tm_mon tm) @ lit ''-''
              @ two_digits (tm_mday tm) @ lit '' '' @ two_digits (tm_hour tm) @ lit '':''
              @ two_digits (tm_min tm) @ lit '':'' @ two_digits (tm_sec tm)"
    if "python_times P \<and> calendar_time tm"
  proof -
    from that have "time_strftime P tm = Inr (timestamp tm)"
      by (simp add: python_times_def)
    with lt show ?thesis
      by (simp add: timestamp_def)
  qed
  have c: "status_line P insights =
            status_mark @ lit '' BUILD STATUS | '' @ str_upper P (build_status insights)
              @ lit '' | Framework: Unknown''"
    if "resolved_framework insights = None"
    using that by (simp add: status_line_def framework_label_def lit_def)
  have d: "status_line P insights =
            status_mark @ lit '' BUILD STATUS | '' @ str_upper P (build_status insights)
              @ lit '' | Framework: '' @ name"
    if "resolved_framework insights = Some name \<and> name \<noteq> []" for name
    using that by (simp add: status_line_def framework_label_def)
  have e: "root_cause_line insights = cause_mark @ lit '' ROOT CAUSE | '' @ root_cause insights"
    by (simp add: root_cause_line_def)
  have f: "(\<exists>found. derive_insights P deployment events = Inr found
                \<and> format_summary P found deployment =
                    Inr (link_mark @ lit '' Latest deployment: '' @ uid deployment
                         @ lit '' | Created: '' @ created
                         @ blank_line @ status_line P found @ blank_line
                         @ cause_mark @ lit '' ROOT CAUSE | '' @ no_error_message
                         @ blank_line @ fix_mark @ lit '' FIX RECOMMENDATION |''
                         @ concat (map (\<lambda>r. bullet @ r) baseline_recommendations)))"
    if n: "\<forall>line \<in> set (text_lines events).
            \<not> line_matches P error_patterns line \<and> \<not> line_matches P env_patterns line
            \<and> \<not> line_matches P dependency_patterns line"
  proof -
    from n have "detect_patterns P (text_lines events) error_patterns = []"
      "detect_patterns P (text_lines events) env_patterns = []"
      "detect_patterns P (text_lines events) dependency_patterns = []"
      unfolding detect_patterns_eq by (auto simp: filter_empty_conv)
    moreover have "baseline_recommendations \<noteq> []"
      by (simp add: baseline_recommendations_def)
    ultimately show ?thesis
      by (simp add: derive_insights_Inr format_summary_Inr [OF conjunct1 [OF lt] conjunct2 [OF lt]]
          header_def root_cause_line_def fix_section_def join_bullet)
  qed
  from a b c d e f show "format_summary P insights deployment =
       Inr (link_mark @ lit '' Latest deployment: '' @ uid deployment @ lit '' | Created: ''
            @ created @ blank_line @ status_line P insights @ blank_line
            @ root_cause_line insights
            @ (if missing_envs insights \<noteq> []
               then blank_line @ lit ''Missing ENV Vars:''
                      @ concat (map (\<lambda>line. bullet @ line) (missing_envs insights))
               else [])
            @ (if missing_dependencies insights \<noteq> []
               then blank_line @ lit ''Missing Dependencies:''
                      @ concat (map (\<lambda>line. bullet @ line) (missing_dependencies insights))
               else [])
            @ blank_line @ fix_mark @ lit '' FIX RECOMMENDATION |'' @ bullet
            @ join bullet (recommendations insights))
     \<and> (python_times P \<and> calendar_time tm \<longrightarrow>
          created =
            show_int (tm_year tm) @ lit ''-'' @ two_digits (tm_mon tm) @ lit ''-''
              @ two_digits (tm_mday tm) @ lit '' '' @ two_digits (tm_hour tm) @ lit '':''
              @ two_digits (tm_min tm) @ lit '':'' @ two_digits (tm_sec tm))
     \<and> (resolved_framework insights = None \<longrightarrow>
          status_line P insights =
            status_mark @ lit '' BUILD STATUS | '' @ str_upper P (build_status insights)
              @ lit '' | Framework: Unknown'')
     \<and> (\<forall>name. resolved_framework insights = Some name \<and> name \<noteq> [] \<longrightarrow>
          status_line P insights =
            status_mark @ lit '' BUILD STATUS | '' @ str_upper P (build_status insights)
              @ lit '' | Framework: '' @ name)
     \<and> root_cause_line insights = cause_mark @ lit '' ROOT CAUSE | '' @ root_cause insights
     \<and> ((\<forall>line \<in> set (text_lines events).
            \<not> line_matches P error_patterns line \<and> \<not> line_matches P env_patterns line
            \<and> \<not> line_matches P dependency_patterns line)
          \<longrightarrow> (\<exists>found. derive_insights P deployment events = Inr found
                \<and> format_summary P found deployment =
                    Inr (link_mark @ lit '' Latest deployment: '' @ uid deployment
                         @ lit '' | Created: '' @ created
                         @ blank_line @ status_line P found @ blank_line
                         @ cause_mark @ lit '' ROOT CAUSE | '' @ no_error_message
                         @ blank_line @ fix_mark @ lit '' FIX RECOMMENDATION |''
                         @ concat (map (\<lambda>r. bullet @ r) baseline_recommendations))))"
    by blast
qed

text \<open>
  Claim C8 as stated fails for a deployment whose \<open>created_at\<close> is beyond the range of
  \<open>time_t\<close>, here \<open>1e19\<close> seconds: \<open>format_summary\<close> raises \<open>OverflowError\<close> and there is
  no report.
\<close>

theorem report_sections_counterexample:
  "format_summary (example_platform utc) example_insights
     (example_deployment 10000000000000000000) = Inl OverflowError"
  by (simp add: format_summary_Inl example_deployment_def localtime_beyond)

theorem report_sections_witness:
  "time_localtime (example_platform utc) (created_at (example_deployment 1700000000)) =
     Inr \<lparr>tm_year = 2023, tm_mon = 11, tm_mday = 14, tm_hour = 22, tm_min = 13, tm_sec = 20\<rparr>
   \<and> time_strftime (example_platform utc)
        \<lparr>tm_year = 2023, tm_mon = 11, tm_mday = 14, tm_hour = 22, tm_min = 13, tm_sec = 20\<rparr> =
       Inr (lit ''2023-11-14 22:13:20'')
   \<and> python_times (example_platform utc)
   \<and> calendar_time
        \<lparr>tm_year = 2023, tm_mon = 11, tm_mday = 14, tm_hour = 22, tm_min = 13, tm_sec = 20\<rparr>
   \<and> lit ''2023-11-14 22:13:20'' =
       show_int 2023 @ lit ''-'' @ two_digits 11 @ lit ''-'' @ two_digits 14 @ lit '' ''
         @ two_digits 22 @ lit '':'' @ two_digits 13 @ lit '':'' @ two_digits 20
   \<and> text_lines [message_event ''Build completed''] = [lit ''Build completed'']
   \<and> \<not> line_matches (example_platform utc) error_patterns (lit ''Build completed'')
   \<and> \<not> line_matches (example_platform utc) env_patterns (lit ''Build completed'')
   \<and> \<not> line_matches (example_platform utc) dependency_patterns (lit ''Build completed'')
   \<and> derive_insights (example_platform utc) (example_deployment 1700000000)
        [message_event ''Build completed''] = Inr example_insights
   \<and> format_summary (example_platform utc) example_insights (example_deployment 1700000000) =
       Inr (link_mark @ lit '' Latest deployment: dpl_1 | Created: 2023-11-14 22:13:20''
            @ blank_line @ status_mark @ lit '' BUILD STATUS | READY | Framework: Unknown''
            @ blank_line @ cause_mark
            @ lit '' ROOT CAUSE | No explicit error message found in logs.''
            @ blank_line @ fix_mark @ lit '' FIX RECOMMENDATION |''
            @ concat (map (\<lambda>r. bullet @ r) baseline_recommendations))"
proof -
  let ?P = "example_platform utc"
  let ?d = "example_deployment 1700000000"
  let ?tm = "\<lparr>tm_year = 2023, tm_mon = 11, tm_mday = 14, tm_hour = 22, tm_min = 13,
      tm_sec = 20\<rparr>"
  let ?created = "lit ''2023-11-14 22:13:20''"
  let ?events = "[message_event ''Build completed'']"
  have lt: "time_localtime ?P (created_at ?d) = Inr ?tm"
    by (simp add: example_deployment_def localtime_utc)
  have sf: "time_strftime ?P ?tm = Inr ?created"
    by (simp add: strftime_utc)
  have pt: "python_times ?P"
    by (rule python_times_example)
  have ct: "calendar_time ?tm"
    by (rule calendar_time_utc)
  note r = report_sections [where P = ?P and deployment = ?d and tm = ?tm
      and created = ?created and insights = example_insights and events = ?events,
      rule_format, OF conjI [OF lt sf]]
  from r pt ct have "?created =
      show_int (tm_year ?tm) @ lit ''-'' @ two_digits (tm_mon ?tm) @ lit ''-''
        @ two_digits (tm_mday ?tm) @ lit '' '' @ two_digits (tm_hour ?tm) @ lit '':''
        @ two_digits (tm_min ?tm) @ lit '':'' @ two_digits (tm_sec ?tm)"
    by blast
  then have stamp: "?created =
      show_int 2023 @ lit ''-'' @ two_digits 11 @ lit ''-'' @ two_digits 14 @ lit '' ''
        @ two_digits 22 @ lit '':'' @ two_digits 13 @ lit '':'' @ two_digits 20"
    by simp
  have l: "text_lines ?events = [lit ''Build completed'']"
    by (simp add: message_event_text lit_def)
  have m: "\<not> line_matches ?P error_patterns (lit ''Build completed'')"
    "\<not> line_matches ?P env_patterns (lit ''Build completed'')"
    "\<not> line_matches ?P dependency_patterns (lit ''Build completed'')"
    by (simp_all add: line_matches_def error_patterns_def env_patterns_def
        dependency_patterns_def str_eval)
  then have n: "\<forall>line \<in> set (text_lines ?events).
      \<not> line_matches ?P error_patterns line \<and> \<not> line_matches ?P env_patterns line
      \<and> \<not> line_matches ?P dependency_patterns line"
    unfolding l by simp
  with r obtain found where
    f: "derive_insights ?P ?d ?events = Inr found"
    and s: "format_summary ?P found ?d =
      Inr (link_mark @ lit '' Latest deployment: '' @ uid ?d @ lit '' | Created: ''
        @ ?created @ blank_line @ status_line ?P found @ blank_line
        @ cause_mark @ lit '' ROOT CAUSE | '' @ no_error_message
        @ blank_line @ fix_mark @ lit '' FIX RECOMMENDATION |''
        @ concat (map (\<lambda>r. bullet @ r) baseline_recommendations))"
    by blast
  from f have found: "found = example_insights"
    by (simp add: derive_example_insights)
  have h: "lit '' Latest deployment: '' @ uid ?d @ lit '' | Created: '' @ ?created =
      lit '' Latest deployment: dpl_1 | Created: 2023-11-14 22:13:20''"
    by (simp add: example_deployment_def lit_def)
  have "resolved_framework example_insights = None"
    by (simp add: example_insights_def)
  with r have "status_line ?P example_insights =
      status_mark @ lit '' BUILD STATUS | '' @ str_upper ?P (build_status example_insights)
        @ lit '' | Framework: Unknown''"
    by blast
  then have st: "status_line ?P example_insights =
      status_mark @ lit '' BUILD STATUS | READY | Framework: Unknown''"
    by (simp add: example_insights_def str_eval)
  have c: "lit '' ROOT CAUSE | '' @ no_error_message =
      lit '' ROOT CAUSE | No explicit error message found in logs.''"
    by (simp add: no_error_message_def lit_def)
  from s have fs: "format_summary ?P example_insights ?d =
       Inr (link_mark @ lit '' Latest deployment: dpl_1 | Created: 2023-11-14 22:13:20''
            @ blank_line @ status_mark @ lit '' BUILD STATUS | READY | Framework: Unknown''
            @ blank_line @ cause_mark
            @ lit '' ROOT CAUSE | No explicit error message found in logs.''
            @ blank_line @ fix_mark @ lit '' FIX RECOMMENDATION |''
            @ concat (map (\<lambda>r. bullet @ r) baseline_recommendations))"
    unfolding found st using h c by simp
  from lt sf pt ct stamp l m derive_example_insights [of 1700000000] fs show ?thesis
    by blast
qed

lemma status_line_ready:
  "python_strings P \<Longrightarrow> build_status insights = lit ''ready''
   \<Longrightarrow> resolved_framework insights = None
   \<Longrightarrow> status_line P insights =
       status_mark @ lit '' BUILD STATUS | READY | Framework: Unknown''"
proof -
  assume ok: "python_strings P" and b: "build_status insights = lit ''ready''"
    and f: "resolved_framework insights = None"
  have "is_ascii (lit ''ready'')"
    by (simp add: is_ascii_def lit_def)
  with ok have "str_upper P (lit ''ready'') = map ascii_upper (lit ''ready'')"
    by (simp add: python_strings_def)
  then have "str_upper P (lit ''ready'') = lit ''READY''"
    by (simp add: str_eval)
  with b f show ?thesis
    by (simp add: status_line_def framework_label_def lit_def)
qed

lemma ready_not_in_status_line:
  "\<not> sublist (lit ''ready'')
       (status_mark @ lit '' BUILD STATUS | READY | Framework: Unknown'')"
  by (simp add: status_mark_def str_eval)

text \<open>
  Claim C10. \<open>build_status\<close> is the state of the deployment as it is. The status line
  holds \<open>str.upper\<close> of it, between \<open>BUILD STATUS |\<close> and \<open>| Framework:\<close>, and is part of
  every report that is rendered; for a build status of ASCII characters that is the
  status with its letters \<open>a\<close> to \<open>z\<close> replaced by \<open>A\<close> to \<open>Z\<close>. There is a deployment
  whose state has lower-case letters and does not occur in the status line.
\<close>

theorem status_line_upper_cases:
  "(\<exists>found. derive_insights P deployment events = Inr found
            \<and> build_status found = state deployment)
   \<and> status_line P insights =
       status_mark @ lit '' BUILD STATUS | '' @ str_upper P (build_status insights)
         @ lit '' | Framework: '' @ framework_label insights
   \<and> (\<forall>report. format_summary P insights deployment = Inr report
         \<longrightarrow> sublist (status_line P insights) report)
   \<and> (python_strings P \<and> is_ascii (build_status insights)
        \<longrightarrow> status_line P insights =
              status_mark @ lit '' BUILD STATUS | '' @ map ascii_upper (build_status insights)
                @ lit '' | Framework: '' @ framework_label insights)
   \<and> (python_strings P
        \<longrightarrow> (\<exists>d found. (\<exists>c \<in> set (state d). 97 \<le> c \<and> c \<le> 122)
              \<and> derive_insights P d [] = Inr found
              \<and> build_status found = state d
              \<and> \<not> sublist (state d) (status_line P found)))"
proof -
  have a: "\<exists>found. derive_insights P deployment events = Inr found
            \<and> build_status found = state deployment"
    by (simp add: derive_insights_Inr)
  have b: "status_line P insights =
       status_mark @ lit '' BUILD STATUS | '' @ str_upper P (build_status insights)
         @ lit '' | Framework: '' @ framework_label insights"
    by (simp add: status_line_def)
  have c: "sublist (status_line P insights) report"
    if r: "format_summary P insights deployment = Inr report" for report
  proof (cases "time_localtime P (created_at deployment)")
    case (Inl e)
    with r show ?thesis
      by (simp add: format_summary_Inl)
  next
    case lt: (Inr tm)
    show ?thesis
    proof (cases "time_strftime P tm")
      case (Inl e)
      with r lt show ?thesis
        by (simp add: format_summary_strftime_Inl)
    next
      case (Inr created)
      from r show ?thesis
        unfolding format_summary_Inr [OF lt Inr] sublist_def
        by (metis append.assoc sum.inject(2))
    qed
  qed
  have d: "status_line P insights =
              status_mark @ lit '' BUILD STATUS | '' @ map ascii_upper (build_status insights)
                @ lit '' | Framework: '' @ framework_label insights"
    if "python_strings P \<and> is_ascii (build_status insights)"
    using that by (simp add: status_line_def python_strings_def)
  have e: "\<exists>d found. (\<exists>c \<in> set (state d). 97 \<le> c \<and> c \<le> 122)
              \<and> derive_insights P d [] = Inr found
              \<and> build_status found = state d
              \<and> \<not> sublist (state d) (status_line P found)"
    if ok: "python_strings P"
  proof -
    let ?d = "example_deployment 0"
    let ?found = example_insights
    have "find_framework P ?d [] = Inr None"
      by (simp add: framework_eval example_deployment_def)
    then have di: "derive_insights P ?d [] = Inr ?found"
      by (simp add: derive_insights_Inr detect_patterns_eq example_insights_def
          example_deployment_def)
    have "status_line P ?found =
        status_mark @ lit '' BUILD STATUS | READY | Framework: Unknown''"
      using ok by (rule status_line_ready) (simp_all add: example_insights_def)
    then have n: "\<not> sublist (lit ''ready'') (status_line P ?found)"
      by (simp add: ready_not_in_status_line)
    have "(\<exists>c \<in> set (state ?d). 97 \<le> c \<and> c \<le> 122)
         \<and> derive_insights P ?d [] = Inr ?found
         \<and> build_status ?found = state ?d
         \<and> \<not> sublist (state ?d) (status_line P ?found)"
      using di n by (simp add: example_deployment_def example_insights_def lit_def)
    then show ?thesis
      by blast
  qed
  from a b c d e show ?thesis
    by blast
qed

theorem status_line_upper_cases_witness:
  "python_strings (example_platform utc)
   \<and> status_line (example_platform utc)
        (example_insights\<lparr>build_status := lit ''queued-'' @ [0xDF]\<rparr>) =
       status_mark @ lit '' BUILD STATUS | QUEUED-SS | Framework: Unknown''
   \<and> is_ascii (build_status (example_insights\<lparr>build_status := lit ''Error''\<rparr>))
   \<and> status_line (example_platform utc) (example_insights\<lparr>build_status := lit ''Error''\<rparr>) =
       status_mark @ lit '' BUILD STATUS | ERROR | Framework: Unknown''
   \<and> format_summary (example_platform utc) (example_insights\<lparr>build_status := lit ''Error''\<rparr>)
        (example_deployment 1700000000) =
       Inr (link_mark @ lit '' Latest deployment: dpl_1 | Created: 2023-11-14 22:13:20''
            @ blank_line @ status_mark @ lit '' BUILD STATUS | ERROR | Framework: Unknown''
            @ blank_line @ cause_mark
            @ lit '' ROOT CAUSE | No explicit error message found in logs.''
            @ blank_line @ fix_mark @ lit '' FIX RECOMMENDATION |''
            @ concat (map (\<lambda>r. bullet @ r) baseline_recommendations))
   \<and> sublist (status_mark @ lit '' BUILD STATUS | ERROR | Framework: Unknown'')
        (link_mark @ lit '' Latest deployment: dpl_1 | Created: 2023-11-14 22:13:20''
         @ blank_line @ status_mark @ lit '' BUILD STATUS | ERROR | Framework: Unknown''
         @ blank_line @ cause_mark
         @ lit '' ROOT CAUSE | No explicit error message found in logs.''
         @ blank_line @ fix_mark @ lit '' FIX RECOMMENDATION |''
         @ concat (map (\<lambda>r. bullet @ r) baseline_recommendations))"
proof -
  let ?P = "example_platform utc"
  let ?i = "example_insights\<lparr>build_status := lit ''Error''\<rparr>"
  let ?d = "example_deployment 1700000000"
  let ?tm = "\<lparr>tm_year = 2023, tm_mon = 11, tm_mday = 14, tm_hour = 22, tm_min = 13,
      tm_sec = 20\<rparr>"
  let ?report = "link_mark @ lit '' Latest deployment: dpl_1 | Created: 2023-11-14 22:13:20''
            @ blank_line @ status_mark @ lit '' BUILD STATUS | ERROR | Framework: Unknown''
            @ blank_line @ cause_mark
            @ lit '' ROOT CAUSE | No explicit error message found in logs.''
            @ blank_line @ fix_mark @ lit '' FIX RECOMMENDATION |''
            @ concat (map (\<lambda>r. bullet @ r) baseline_recommendations)"
  note s = status_line_upper_cases [of ?P ?d "[]" ?i]
  have ok: "python_strings ?P"
    by (rule python_strings_example)
  let ?j = "example_insights\<lparr>build_status := lit ''queued-'' @ [0xDF]\<rparr>"
  from status_line_upper_cases [of ?P ?d "[]" ?j]
  have "status_line ?P ?j =
      status_mark @ lit '' BUILD STATUS | '' @ str_upper ?P (build_status ?j)
        @ lit '' | Framework: '' @ framework_label ?j"
    by blast
  then have sharp: "status_line ?P ?j =
      status_mark @ lit '' BUILD STATUS | QUEUED-SS | Framework: Unknown''"
    by (simp add: example_insights_def framework_label_def str_eval)
  have asc: "is_ascii (build_status ?i)"
    by (simp add: is_ascii_def lit_def)
  with s ok have "status_line ?P ?i =
      status_mark @ lit '' BUILD STATUS | '' @ map ascii_upper (build_status ?i)
        @ lit '' | Framework: '' @ framework_label ?i"
    by blast
  then have st: "status_line ?P ?i =
      status_mark @ lit '' BUILD STATUS | ERROR | Framework: Unknown''"
    by (simp add: example_insights_def framework_label_def str_eval)
  have lt: "time_localtime ?P (created_at ?d) = Inr ?tm"
    by (simp add: example_deployment_def localtime_utc)
  have sf: "time_strftime ?P ?tm = Inr (lit ''2023-11-14 22:13:20'')"
    by (simp add: strftime_utc)
  have h: "header ?d (lit ''2023-11-14 22:13:20'') =
      link_mark @ lit '' Latest deployment: dpl_1 | Created: 2023-11-14 22:13:20''"
    by (simp add: header_def example_deployment_def lit_def)
  have "baseline_recommendations \<noteq> []"
    by (simp add: baseline_recommendations_def)
  then have fs: "format_summary ?P ?i ?d = Inr ?report"
    unfolding format_summary_Inr [OF lt sf] h st
    by (simp add: example_insights_def root_cause_line_def fix_section_def join_bullet
        no_error_message_def lit_def)
  with s have "sublist (status_line ?P ?i) ?report"
    by blast
  with ok sharp asc st fs show ?thesis
    by simp
qed




section \<open>Errors of the core\<close>

text \<open>
  Claim C7, as amended. \<open>extract_text_from_event\<close> and \<open>derive_insights\<close> return for
  every event, deployment and list of events: neither the \<open>KeyError\<close> of
  \<open>event["message"]\<close> nor the \<open>IndexError\<close> of \<open>error_lines[-1]\<close> is ever raised. An event
  with no string under \<open>payload.text\<close> and no string under \<open>message\<close> has the empty
  text, and when every event has the empty text the insights are the defaults: the
  placeholder root cause, no missing variables or dependencies, the framework of the
  deployment or none, and the three baseline recommendations. The renderer returns a
  report exactly when \<^verbatim>\<open>time.localtime\<close> converts \<open>created_at\<close> and
  \<^verbatim>\<open>time.strftime\<close> formats the result; otherwise it raises the exception of the one
  of the two calls that fails, and no other.
\<close>

theorem core_errors:
  "(\<exists>s. extract_text_from_event event = Inr s)
   \<and> ((\<forall>payload s. map_of event (lit ''payload'') = Some (JDict payload)
                      \<longrightarrow> map_of payload (lit ''text'') \<noteq> Some (JStr s))
        \<and> (\<forall>s. map_of event (lit ''message'') \<noteq> Some (JStr s))
        \<longrightarrow> extract_text_from_event event = Inr [])
   \<and> (\<exists>insights. derive_insights P deployment events = Inr insights)
   \<and> (python_strings P \<and> (\<forall>e \<in> set events. extract_text_from_event e = Inr [])
        \<longrightarrow> derive_insights P deployment events =
              Inr \<lparr>root_cause = no_error_message,
                   missing_envs = [],
                   missing_dependencies = [],
                   resolved_framework =
                     (if truthy (framework deployment) then framework deployment else None),
                   build_status = state deployment,
                   recommendations = baseline_recommendations\<rparr>)
   \<and> ((\<exists>report. format_summary P insights deployment = Inr report)
        \<longleftrightarrow> (\<exists>tm created. time_localtime P (created_at deployment) = Inr tm
                          \<and> time_strftime P tm = Inr created))
   \<and> (\<forall>e. format_summary P insights deployment = Inl e
            \<longleftrightarrow> (time_localtime P (created_at deployment) = Inl e
                 \<or> (\<exists>tm. time_localtime P (created_at deployment) = Inr tm
                           \<and> time_strftime P tm = Inl e)))"
proof -
  have a: "\<exists>s. extract_text_from_event event = Inr s"
    by (rule extract_text_total)
  have b: "extract_text_from_event event = Inr []"
    if "\<forall>payload s. map_of event (lit ''payload'') = Some (JDict payload)
          \<longrightarrow> map_of payload (lit ''text'') \<noteq> Some (JStr s)"
      and "\<forall>s. map_of event (lit ''message'') \<noteq> Some (JStr s)"
    using that
    by (auto simp: extract_text_from_event_def message_text_Inr dict_get_def
        split: option.splits json.splits)
  have c: "\<exists>insights. derive_insights P deployment events = Inr insights"
    by (simp add: derive_insights_Inr)
  have d: "derive_insights P deployment events =
      Inr \<lparr>root_cause = no_error_message, missing_envs = [], missing_dependencies = [],
           resolved_framework =
             (if truthy (framework deployment) then framework deployment else None),
           build_status = state deployment,
           recommendations = baseline_recommendations\<rparr>"
    if ok: "python_strings P"
      and empty: "\<forall>e \<in> set events. extract_text_from_event e = Inr []"
  proof -
    from empty have l: "text_lines events = []"
      by (simp add: filter_empty_conv)
    from ok have low: "str_lower P [] = []"
      by (rule lower_empty)
    from empty have "scan_framework P events = Inr None"
      by (induction events) (simp_all add: Let_def low lit_def)
    then have "find_framework P deployment events =
        Inr (if truthy (framework deployment) then framework deployment else None)"
      by (simp add: find_framework_def)
    then show ?thesis
      by (simp add: derive_insights_Inr l detect_patterns_eq)
  qed
  have e: "(\<exists>report. format_summary P insights deployment = Inr report)
        \<longleftrightarrow> (\<exists>tm created. time_localtime P (created_at deployment) = Inr tm
                          \<and> time_strftime P tm = Inr created)"
    by (auto simp: format_summary_def Let_def split: sum.splits)
  have f: "format_summary P insights deployment = Inl e
        \<longleftrightarrow> (time_localtime P (created_at deployment) = Inl e
             \<or> (\<exists>tm. time_localtime P (created_at deployment) = Inr tm
                       \<and> time_strftime P tm = Inl e))" for e
    by (auto simp: format_summary_def Let_def split: sum.splits)
  from a b c d e f show ?thesis
    by blast
qed

text \<open>
  Claim C7 as stated fails in the renderer: for a \<open>created_at\<close> of \<open>1e18\<close> seconds, a
  year that does not fit \<open>tm_year\<close>, \<open>format_summary\<close> raises \<open>OSError\<close>.
\<close>

theorem core_errors_counterexample:
  "format_summary (example_platform utc) example_insights
     (example_deployment 1000000000000000000) = Inl OSError"
  by (simp add: format_summary_Inl example_deployment_def localtime_far)

theorem core_errors_witness:
  "python_strings (example_platform utc)
   \<and> map_of [(lit ''type'', JStr (lit ''stdout'')),
              (lit ''payload'', JDict [(lit ''text'', JNum 3)])] (lit ''payload'') =
       Some (JDict [(lit ''text'', JNum 3)])
   \<and> map_of [(lit ''text'', JNum 3)] (lit ''text'') = Some (JNum 3)
   \<and> map_of [(lit ''type'', JStr (lit ''stdout'')),
              (lit ''payload'', JDict [(lit ''text'', JNum 3)])] (lit ''message'') = None
   \<and> extract_text_from_event
        [(lit ''type'', JStr (lit ''stdout'')),
         (lit ''payload'', JDict [(lit ''text'', JNum 3)])] = Inr []
   \<and> derive_insights (example_platform utc) (example_deployment 1700000000)
        [[(lit ''type'', JStr (lit ''stdout'')),
          (lit ''payload'', JDict [(lit ''text'', JNum 3)])]] =
       Inr example_insights
   \<and> time_localtime (example_platform utc) (created_at (example_deployment 1700000000)) =
       Inr \<lparr>tm_year = 2023, tm_mon = 11, tm_mday = 14, tm_hour = 22, tm_min = 13,
            tm_sec = 20\<rparr>
   \<and> time_strftime (example_platform utc)
        \<lparr>tm_year = 2023, tm_mon = 11, tm_mday = 14, tm_hour = 22, tm_min = 13,
         tm_sec = 20\<rparr> = Inr (lit ''2023-11-14 22:13:20'')
   \<and> (\<exists>report. format_summary (example_platform utc) example_insights
                  (example_deployment 1700000000) = Inr report)"
proof -
  let ?event = "[(lit ''type'', JStr (lit ''stdout'')),
      (lit ''payload'', JDict [(lit ''text'', JNum 3)])]"
  let ?P = "example_platform utc"
  let ?d = "example_deployment 1700000000"
  note c = core_errors [of ?event ?P ?d "[?event]" example_insights]
  have ok: "python_strings ?P"
    by (rule python_strings_example)
  have m: "map_of ?event (lit ''payload'') = Some (JDict [(lit ''text'', JNum 3)])"
    "map_of [(lit ''text'', JNum 3)] (lit ''text'') = Some (JNum 3)"
    "map_of ?event (lit ''message'') = None"
    by (simp_all add: lit_def)
  then have h1: "\<forall>payload s. map_of ?event (lit ''payload'') = Some (JDict payload)
                 \<longrightarrow> map_of payload (lit ''text'') \<noteq> Some (JStr s)"
    and h2: "\<forall>s. map_of ?event (lit ''message'') \<noteq> Some (JStr s)"
    by auto
  from c h1 h2 have e: "extract_text_from_event ?event = Inr []"
    by blast
  then have h3: "\<forall>e \<in> set [?event]. extract_text_from_event e = Inr []"
    by simp
  with c ok have "derive_insights ?P ?d [?event] =
      Inr \<lparr>root_cause = no_error_message, missing_envs = [], missing_dependencies = [],
           resolved_framework = (if truthy (framework ?d) then framework ?d else None),
           build_status = state ?d, recommendations = baseline_recommendations\<rparr>"
    by blast
  then have di: "derive_insights ?P ?d [?event] = Inr example_insights"
    by (simp add: truthy_def example_deployment_def example_insights_def)
  have lt: "time_localtime ?P (created_at ?d) =
      Inr \<lparr>tm_year = 2023, tm_mon = 11, tm_mday = 14, tm_hour = 22, tm_min = 13,
           tm_sec = 20\<rparr>"
    by (simp add: example_deployment_def localtime_utc)
  have sf: "time_strftime ?P
      \<lparr>tm_year = 2023, tm_mon = 11, tm_mday = 14, tm_hour = 22, tm_min = 13,
       tm_sec = 20\<rparr> = Inr (lit ''2023-11-14 22:13:20'')"
    by (simp add: strftime_utc)
  with c lt have "\<exists>report. format_summary ?P example_insights ?d = Inr report"
    by blast
  with ok m e di lt sf show ?thesis
    by blast
qed

section \<open>Properties of deployment selection and of the command line\<close>

lemma sorted_le_last: "sorted xs \<Longrightarrow> x \<in> set xs \<Longrightarrow> x \<le> last xs"
  by (induction xs) auto

lemma find_eq_filter:
  "List.find P xs = (case filter P xs of [] \<Rightarrow> None | x # _ \<Rightarrow> Some x)"
  by (induction xs) auto

lemma last_filter_same: "xs \<noteq> [] \<Longrightarrow> P (last xs) \<Longrightarrow> last (filter P xs) = last xs"
  by (induction xs rule: rev_induct) auto

lemma sort_key_last:
  assumes "xs \<noteq> []"
  shows "last (sort_key f xs) \<in> set xs"
    and "\<forall>x \<in> set xs. f x \<le> f (last (sort_key f xs))"
    and "last (sort_key f xs) = last (filter (\<lambda>y. f y = f (last (sort_key f xs))) xs)"
proof -
  let ?s = "sort_key f xs"
  have ne: "?s \<noteq> []"
    using assms by (metis set_sort set_empty)
  then have "last ?s \<in> set ?s"
    by (rule last_in_set)
  then show "last ?s \<in> set xs"
    by simp
  have "sorted (map f ?s)"
    by simp
  then have "\<forall>k \<in> set (map f ?s). k \<le> last (map f ?s)"
    using sorted_le_last by blast
  then show "\<forall>x \<in> set xs. f x \<le> f (last ?s)"
    using ne by (simp add: last_map)
  have "last (filter (\<lambda>y. f y = f (last ?s)) ?s) = last ?s"
    using ne by (rule last_filter_same) simp
  then show "last ?s = last (filter (\<lambda>y. f y = f (last ?s)) xs)"
    by (simp add: sort_key_stable)
qed

lemma sort_reverse_head:
  assumes "xs \<noteq> []"
  shows "\<exists>top rest. sort_reverse f xs = top # rest \<and> top \<in> set xs
           \<and> (\<forall>x \<in> set xs. f x \<le> f top)
           \<and> List.find (\<lambda>x. f x = f top) xs = Some top"
proof -
  let ?s = "sort_key f (rev xs)"
  let ?top = "last ?s"
  from assms have r: "rev xs \<noteq> []"
    by simp
  have ne: "?s \<noteq> []"
    using r by (metis set_sort set_empty)
  note l = sort_key_last [OF r, of f]
  have mem: "?top \<in> set xs"
    using l(1) by simp
  have max: "\<forall>x \<in> set xs. f x \<le> f ?top"
    using l(2) by simp
  have "?top = last (rev (filter (\<lambda>y. f y = f ?top) xs))"
    using l(3) by (simp add: rev_filter)
  moreover have "filter (\<lambda>y. f y = f ?top) xs \<noteq> []"
    using mem by (auto simp: filter_empty_conv)
  ultimately obtain others where "filter (\<lambda>y. f y = f ?top) xs = ?top # others"
    by (cases "filter (\<lambda>y. f y = f ?top) xs") (simp_all add: last_rev)
  then have find: "List.find (\<lambda>x. f x = f ?top) xs = Some ?top"
    by (simp only: find_eq_filter list.case)
  have "rev (butlast ?s @ [?top]) = ?top # rev (butlast ?s)"
    by simp
  then have "sort_reverse f xs = ?top # rev (butlast ?s)"
    using ne by (simp add: sort_reverse_def)
  with mem max find show ?thesis
    by blast
qed

lemma getenv_or_exit_set:
  "env key = Some v \<Longrightarrow> v \<noteq> [] \<Longrightarrow> getenv_or_exit env key = Inr v"
  by (simp add: getenv_or_exit_def)

lemma main_with_credentials:
  assumes "env (lit ''VERCEL_TOKEN'') = Some token" and "token \<noteq> []"
    and "env (lit ''VERCEL_PROJECT_NAME'') = Some project" and "project \<noteq> []"
  shows "main P env api =
     (case list_deployments api token project (env (lit ''VERCEL_TEAM_ID'')) of
        Inl exc \<Rightarrow> Exit [cross_mark @ lit '' '' @ error_text exc] 1
      | Inr [] \<Rightarrow> Exit [no_deployments_line] 1
      | Inr (latest # _) \<Rightarrow>
          (case fetch_events api token (uid latest) (env (lit ''VERCEL_TEAM_ID'')) of
             Inl exc \<Rightarrow>
               Exit [link_mark @ lit '' Latest deployment: '' @ uid latest
                       @ lit '' | State: '' @ state latest,
                     cross_mark @ lit '' '' @ error_text exc] 1
           | Inr events \<Rightarrow>
               (case format_summary P (projr (derive_insights P latest events)) latest of
                  Inl e \<Rightarrow>
                    Uncaught [link_mark @ lit '' Latest deployment: '' @ uid latest
                                @ lit '' | State: '' @ state latest] e
                | Inr summary \<Rightarrow>
                    Exit [link_mark @ lit '' Latest deployment: '' @ uid latest
                            @ lit '' | State: '' @ state latest,
                          [], summary] 0)))"
proof -
  have d: "\<exists>insights. derive_insights P latest events = Inr insights" for latest events
    by (simp add: derive_insights_Inr)
  have t: "getenv_or_exit env (lit ''VERCEL_TOKEN'') = Inr token"
    using assms(1,2) by (rule getenv_or_exit_set)
  have p: "getenv_or_exit env (lit ''VERCEL_PROJECT_NAME'') = Inr project"
    using assms(3,4) by (rule getenv_or_exit_set)
  show ?thesis
  proof (cases "list_deployments api token project (env (lit ''VERCEL_TEAM_ID''))")
    case (Inl exc)
    then show ?thesis
      by (simp add: main_def t p)
  next
    case (Inr deployments)
    show ?thesis
    proof (cases deployments)
      case Nil
      with Inr show ?thesis
        by (simp add: main_def t p)
    next
      case (Cons latest rest)
      show ?thesis
      proof (cases "fetch_events api token (uid latest) (env (lit ''VERCEL_TEAM_ID''))")
        case (Inl exc)
        with Inr Cons show ?thesis
          by (simp add: main_def t p)
      next
        case ev: (Inr events)
        obtain insights where "derive_insights P latest events = Inr insights"
          using d by blast
        with Inr Cons ev show ?thesis
          by (simp add: main_def t p split: sum.splits)
      qed
    qed
  qed
qed



lemma error_text_distinct:
  "cross_mark @ lit '' '' @ error_text exc \<noteq> no_deployments_line"
  by (cases exc) (simp_all add: no_deployments_line_def lit_def)

text \<open>
  Claim C6. With the credentials set, \<open>main\<close> prints the single line
  \<open>No deployments found for the specified project.\<close> and exits with status 1 exactly
  when the request succeeds with the empty list: no event is fetched, and no header of a
  deployment and no report is printed. A failed request prints the message of its
  \<open>VercelAPIError\<close> instead, a different line, and exits with status 1 as well.
\<close>

theorem no_deployments_found:
  assumes "env (lit ''VERCEL_TOKEN'') = Some token" and "token \<noteq> []"
    and "env (lit ''VERCEL_PROJECT_NAME'') = Some project" and "project \<noteq> []"
  shows "(deployment_records api token project (env (lit ''VERCEL_TEAM_ID'')) = Inr []
            \<longleftrightarrow> main P env api =
                  Exit [cross_mark @ lit '' No deployments found for the specified project.''] 1)
         \<and> (deployment_records api token project (env (lit ''VERCEL_TEAM_ID'')) = Inl exc
            \<longrightarrow> main P env api = Exit [cross_mark @ lit '' '' @ error_text exc] 1)"
proof -
  note m = main_with_credentials [OF assms, of P api]
  have f: "main P env api = Exit [cross_mark @ lit '' '' @ error_text exc] 1"
    if "deployment_records api token project (env (lit ''VERCEL_TEAM_ID'')) = Inl exc" for exc
    using that by (simp add: m list_deployments_def)
  have e: "main P env api = Exit [no_deployments_line] 1"
    if "deployment_records api token project (env (lit ''VERCEL_TEAM_ID'')) = Inr []"
    using that by (simp add: m list_deployments_def sort_reverse_def)
  have n: "main P env api \<noteq> Exit [no_deployments_line] 1"
    if r: "deployment_records api token project (env (lit ''VERCEL_TEAM_ID'')) = Inr deployments"
      and ne: "deployments \<noteq> []" for deployments
  proof -
    from ne obtain latest rest where "sort_reverse created_at deployments = latest # rest"
      using sort_reverse_head [of deployments created_at] by blast
    with r show ?thesis
      by (simp add: m list_deployments_def split: sum.splits)
  qed
  have "deployment_records api token project (env (lit ''VERCEL_TEAM_ID'')) = Inr []"
    if x: "main P env api = Exit [no_deployments_line] 1"
  proof (cases "deployment_records api token project (env (lit ''VERCEL_TEAM_ID''))")
    case (Inl exc)
    with f x show ?thesis
      using error_text_distinct [of exc] by simp
  next
    case (Inr deployments)
    with n x show ?thesis
      by (cases "deployments = []") auto
  qed
  with e f show ?thesis
    unfolding no_deployments_line_def by blast
qed

theorem no_deployments_found_witness:
  "example_env (lit ''VERCEL_TOKEN'') = Some (lit ''secret'') \<and> lit ''secret'' \<noteq> []
   \<and> example_env (lit ''VERCEL_PROJECT_NAME'') = Some (lit ''site'') \<and> lit ''site'' \<noteq> []
   \<and> main (example_platform utc) example_env (example_api (Inr [])) =
       Exit [cross_mark @ lit '' No deployments found for the specified project.''] 1
   \<and> main (example_platform utc) example_env
        (example_api (Inl (HTTPError 403 (lit ''Forbidden'')))) =
       Exit [cross_mark @ lit '' HTTP error 403 from Vercel API: Forbidden''] 1"
proof -
  let ?P = "example_platform utc"
  have "deployment_records (example_api (Inr [])) (lit ''secret'') (lit ''site'')
      (example_env (lit ''VERCEL_TEAM_ID'')) = Inr []"
    by (simp add: example_api_def)
  with no_deployments_found [OF example_env_credentials(1-4),
      where api = "example_api (Inr [])" and P = ?P]
  have a: "main ?P example_env (example_api (Inr [])) =
       Exit [cross_mark @ lit '' No deployments found for the specified project.''] 1"
    by blast
  let ?exc = "HTTPError 403 (lit ''Forbidden'')"
  have "deployment_records (example_api (Inl ?exc)) (lit ''secret'') (lit ''site'')
      (example_env (lit ''VERCEL_TEAM_ID'')) = Inl ?exc"
    by (simp add: example_api_def)
  with no_deployments_found [OF example_env_credentials(1-4),
      where api = "example_api (Inl ?exc)" and P = ?P and exc = ?exc]
  have "main ?P example_env (example_api (Inl ?exc)) =
       Exit [cross_mark @ lit '' '' @ error_text ?exc] 1"
    by blast
  then have b: "main ?P example_env (example_api (Inl ?exc)) =
       Exit [cross_mark @ lit '' HTTP error 403 from Vercel API: Forbidden''] 1"
    by (simp add: show_int_def digit_def lit_def)
  from a b show ?thesis
    using example_env_credentials by blast
qed

end
